theory Spec2Isabelle
  imports Main "HOL-Library.AList"
begin

section \<open>The host the build scripts run on\<close>

text \<open>
  The scripts of the repository (\<^verbatim>\<open>build_cross_platform.py\<close> and \<^verbatim>\<open>build_cargo.py\<close>)
  compute nothing by themselves: they look at the file system and at the search path,
  start external programs and print. The embedding makes these effects explicit.

  A file-system node is a regular file or a directory; a directory lists its entries in
  the order in which \<^verbatim>\<open>os.scandir\<close> returns them. Symbolic links, permissions and file
  contents are not part of the model.
\<close>

datatype node = File | Dir "(string \<times> node) list"

text \<open>
  \<open>cwd\<close> maps the name of an entry of the invocation directory to the node there,
  \<open>msys64\<close> says whether the one absolute path that the script looks at, \<^verbatim>\<open>C:/msys64\<close>,
  exists, and \<open>onpath\<close> is \<^verbatim>\<open>shutil.which\<close>.
\<close>

record host =
  cwd :: "string \<Rightarrow> node option"
  msys64 :: bool
  onpath :: "string \<Rightarrow> string option"

text \<open>
  What \<^verbatim>\<open>subprocess.run\<close> observes of a child: its return code, or an \<^verbatim>\<open>OSError\<close>
  because the program could not be started.
\<close>

datatype outcome = Exited int | LaunchError

text \<open>
  Everything a run does is recorded, in order. \<open>Proc cmd shell h out\<close> is one external
  process: its argument vector, the \<^verbatim>\<open>shell\<close> flag, the host as it was when the process
  was started, and how the process ended. \<open>PrintError cmd c\<close> is the line
  \<^verbatim>\<open>Error running command: ...\<close> with Python's text of the \<^verbatim>\<open>CalledProcessError\<close> for
  command \<open>cmd\<close> and return code \<open>c\<close>. \<open>ZipWrite p n\<close> adds the file at path \<open>p\<close> to the open
  archive under the entry name \<open>n\<close>.
\<close>

datatype event =
    Print string
  | PrintError "string list" int
  | Proc "string list" bool host outcome
  | Rmtree string
  | Mkdir string
  | ZipOpen "string list"
  | ZipWrite "string list" string

record world =
  host :: host
  trace :: "event list"

text \<open>
  The behaviour of the environment: the name \<^verbatim>\<open>platform.system()\<close> reports, and for
  every command line and host how the process ends and what host it leaves behind.
\<close>

record env =
  system :: string
  exec :: "string list \<Rightarrow> bool \<Rightarrow> host \<Rightarrow> outcome \<times> host"

subsection \<open>Exceptions and sequencing\<close>

datatype exn = SystemExit int | OSError | ValueError

type_synonym 'a prog = "world \<Rightarrow> (exn + 'a) \<times> world"

definition ret :: "'a \<Rightarrow> 'a prog" where
  "ret a s = (Inr a, s)"

definition raise :: "exn \<Rightarrow> 'a prog" where
  "raise x s = (Inl x, s)"

definition bnd :: "'a prog \<Rightarrow> ('a \<Rightarrow> 'b prog) \<Rightarrow> 'b prog" where
  "bnd m f s = (case m s of (Inl x, s') \<Rightarrow> (Inl x, s') | (Inr a, s') \<Rightarrow> f a s')"

definition emit :: "event \<Rightarrow> unit prog" where
  "emit ev s = (Inr (), s\<lparr>trace := trace s @ [ev]\<rparr>)"

definition print :: "string \<Rightarrow> unit prog" where
  "print msg = emit (Print msg)"

text \<open>
  The exit status of the Python process: 0 when \<^verbatim>\<open>main\<close> returns, the argument of
  \<^verbatim>\<open>sys.exit\<close>, and 1 when an exception reaches the top level.
\<close>

fun exit_code :: "exn + unit \<Rightarrow> int" where
  "exit_code (Inr _) = 0"
| "exit_code (Inl (SystemExit c)) = c"
| "exit_code (Inl OSError) = 1"
| "exit_code (Inl ValueError) = 1"

subsection \<open>Strings and paths\<close>

fun join :: "string \<Rightarrow> string list \<Rightarrow> string" where
  "join sep [] = []"
| "join sep [x] = x"
| "join sep (x # y # ys) = x @ sep @ join sep (y # ys)"

definition lower_char :: "char \<Rightarrow> char" where
  "lower_char c =
     (case map_of (zip ''ABCDEFGHIJKLMNOPQRSTUVWXYZ'' ''abcdefghijklmnopqrstuvwxyz'') c of
        Some l \<Rightarrow> l
      | None \<Rightarrow> c)"

definition lower :: "string \<Rightarrow> string" where
  "lower s = map lower_char s"

text \<open>
  A \<^verbatim>\<open>pathlib.Path\<close> is the list of its parts; \<^verbatim>\<open>Path(".")\<close> has no parts.
\<close>

type_synonym path = "string list"

definition parent :: "path \<Rightarrow> path" where
  "parent p = butlast p"

definition relative_to :: "path \<Rightarrow> path \<Rightarrow> exn + path" where
  "relative_to p base =
     (if take (length base) p = base then Inr (drop (length base) p) else Inl ValueError)"

subsection \<open>File-system operations\<close>

definition path_exists :: "string \<Rightarrow> bool prog" where
  "path_exists name s = (Inr (cwd (host s) name \<noteq> None), s)"

text \<open>
  \<^verbatim>\<open>shutil.rmtree\<close> removes a directory with everything below it and raises on a
  regular file and on a missing path.
\<close>

definition rmtree :: "string \<Rightarrow> unit prog" where
  "rmtree name s =
     (case cwd (host s) name of
        Some (Dir es) \<Rightarrow>
          (Inr (), s\<lparr>host := (host s)\<lparr>cwd := (cwd (host s))(name := None)\<rparr>,
                     trace := trace s @ [Rmtree name]\<rparr>)
      | _ \<Rightarrow> (Inl OSError, s\<lparr>trace := trace s @ [Rmtree name]\<rparr>))"

section \<open>The orchestrator: \<^verbatim>\<open>build_cross_platform.py\<close>\<close>

datatype target = Linux | Windows | Flatpak | PackageWindows | All

datatype buildtype = Release | Debug

datatype profile = Default | Development

record args =
  target :: target
  buildtype :: buildtype
  profile :: profile
  prefix :: string
  clean :: bool
  install :: bool

fun target_str :: "target \<Rightarrow> string" where
  "target_str Linux = ''linux''"
| "target_str Windows = ''windows''"
| "target_str Flatpak = ''flatpak''"
| "target_str PackageWindows = ''package-windows''"
| "target_str All = ''all''"

fun buildtype_str :: "buildtype \<Rightarrow> string" where
  "buildtype_str Release = ''release''"
| "buildtype_str Debug = ''debug''"

subsection \<open>\<^verbatim>\<open>run_command\<close>\<close>

definition run_command :: "env \<Rightarrow> string list \<Rightarrow> bool \<Rightarrow> bool \<Rightarrow> int prog" where
  "run_command e cmd shell check =
     bnd (print (''Running: '' @ join '' '' cmd)) (\<lambda>_ s.
       case exec e cmd shell (host s) of (out, h') \<Rightarrow>
         (let s' = s\<lparr>host := h', trace := trace s @ [Proc cmd shell (host s) out]\<rparr> in
          case out of
            LaunchError \<Rightarrow> raise OSError s'
          | Exited c \<Rightarrow>
              if check \<and> c \<noteq> 0
              then bnd (emit (PrintError cmd c)) (\<lambda>_. raise (SystemExit 1)) s'
              else ret c s'))"

subsection \<open>\<^verbatim>\<open>detect_platform\<close>\<close>

definition detect_platform :: "env \<Rightarrow> string" where
  "detect_platform e =
     (let sys = lower (system e) in
      if sys = ''windows'' then ''windows''
      else if sys = ''linux'' then ''linux''
      else if sys = ''freebsd'' then ''freebsd''
      else ''unknown'')"

subsection \<open>\<^verbatim>\<open>check_dependencies_linux\<close> and \<^verbatim>\<open>check_dependencies_windows\<close>\<close>

text \<open>
  \<^verbatim>\<open>shutil.which\<close> returns \<^verbatim>\<open>None\<close> or a path; the script tests the result for truth.
\<close>

definition truthy :: "string option \<Rightarrow> bool" where
  "truthy r = (case r of None \<Rightarrow> False | Some p \<Rightarrow> p \<noteq> [])"

definition which :: "string \<Rightarrow> string option prog" where
  "which cmd s = (Inr (onpath (host s) cmd), s)"

text \<open>
  The loop that collects the missing entries, and the report; \<open>check_dependencies\<close> is
  the body of \<^verbatim>\<open>check_dependencies_linux\<close> for an arbitrary list \<^verbatim>\<open>deps\<close>.
\<close>

fun collect_missing ::
  "(string \<times> string) list \<Rightarrow> (string \<times> string) list \<Rightarrow> (string \<times> string) list prog" where
  "collect_missing [] missing = ret missing"
| "collect_missing ((cmd, package) # deps) missing =
     bnd (which cmd) (\<lambda>r.
       if \<not> truthy r then collect_missing deps (missing @ [(cmd, package)])
       else collect_missing deps missing)"

fun print_missing :: "(string \<times> string) list \<Rightarrow> unit prog" where
  "print_missing [] = ret ()"
| "print_missing ((cmd, package) # missing) =
     bnd (print (''  '' @ cmd @ '' (install '' @ package @ '')'')) (\<lambda>_. print_missing missing)"

definition check_dependencies :: "(string \<times> string) list \<Rightarrow> bool prog" where
  "check_dependencies deps =
     bnd (collect_missing deps []) (\<lambda>missing.
       if missing \<noteq> [] then
         bnd (print ''Missing dependencies:'') (\<lambda>_.
         bnd (print_missing missing) (\<lambda>_.
         bnd (print ''\<newline>Install missing dependencies and try again.'') (\<lambda>_.
         ret False)))
       else ret True)"

definition linux_deps :: "(string \<times> string) list" where
  "linux_deps = [(''meson'', ''meson''), (''ninja'', ''ninja-build''), (''cargo'', ''rust'')]"

definition check_dependencies_linux :: "bool prog" where
  "check_dependencies_linux = check_dependencies linux_deps"

definition check_dependencies_windows :: "bool prog" where
  "check_dependencies_windows s =
     (if \<not> msys64 (host s) then
        bnd (print ''MSYS2 not found at C:/msys64'') (\<lambda>_.
        bnd (print ''Please install MSYS2 from https://www.msys2.org/'') (\<lambda>_.
        ret False)) s
      else ret True s)"

subsection \<open>\<^verbatim>\<open>build_linux\<close>\<close>

definition build_dir :: string where
  "build_dir = ''_build_linux''"

definition meson_args :: "args \<Rightarrow> string list" where
  "meson_args a =
     [''meson'', ''setup'', build_dir,
      ''--buildtype='' @ buildtype_str (buildtype a),
      ''--prefix='' @ prefix a]
     @ (if profile a = Development then [''-Dprofile=development''] else [])"

definition build_linux :: "env \<Rightarrow> args \<Rightarrow> bool prog" where
  "build_linux e a =
     bnd (print ''Building for Linux...'') (\<lambda>_.
     bnd check_dependencies_linux (\<lambda>ok.
       if \<not> ok then ret False
       else
         bnd (if clean a then path_exists build_dir else ret False) (\<lambda>ex.
         bnd (if ex then bnd (print ''Cleaning previous build...'') (\<lambda>_. rmtree build_dir)
              else ret ()) (\<lambda>_.
         bnd (run_command e (meson_args a) False True) (\<lambda>_.
         bnd (run_command e [''meson'', ''compile'', ''-C'', build_dir] False True) (\<lambda>_.
         bnd (if install a
              then bnd (run_command e [''sudo'', ''meson'', ''install'', ''-C'', build_dir]
                          False True) (\<lambda>_. ret ())
              else ret ()) (\<lambda>_.
         bnd (print ''Linux build completed successfully!'') (\<lambda>_.
         ret True))))))))"

subsection \<open>\<^verbatim>\<open>build_windows\<close>\<close>

definition ps_script :: string where
  "ps_script = ''build_windows.ps1''"

definition ps_args :: "args \<Rightarrow> string list" where
  "ps_args a =
     [''powershell'', ''-ExecutionPolicy'', ''Bypass'', ''-File'', ps_script,
      ''-Profile'', buildtype_str (buildtype a)]
     @ (if clean a then [''-Clean''] else [])
     @ (if install a then [''-Install''] else [])"

definition build_windows :: "env \<Rightarrow> args \<Rightarrow> bool prog" where
  "build_windows e a =
     bnd (print ''Building for Windows...'') (\<lambda>_.
     bnd check_dependencies_windows (\<lambda>ok.
       if \<not> ok then ret False
       else
         bnd (path_exists ps_script) (\<lambda>ex.
           if \<not> ex then bnd (print ''build_windows.ps1 not found!'') (\<lambda>_. ret False)
           else
             bnd (run_command e (ps_args a) True True) (\<lambda>_.
             bnd (print ''Windows build completed successfully!'') (\<lambda>_.
             ret True)))))"

subsection \<open>\<^verbatim>\<open>create_flatpak\<close>\<close>

definition manifest :: string where
  "manifest = ''io.bassi.Amberol.json''"

definition flatpak_dir :: string where
  "flatpak_dir = ''_flatpak_build''"

definition create_flatpak :: "env \<Rightarrow> args \<Rightarrow> bool prog" where
  "create_flatpak e a =
     bnd (print ''Creating Flatpak package...'') (\<lambda>_.
     bnd (path_exists manifest) (\<lambda>ex.
       if \<not> ex then bnd (print ''Flatpak manifest not found!'') (\<lambda>_. ret False)
       else
         bnd (if clean a then path_exists flatpak_dir else ret False) (\<lambda>ex.
         bnd (if ex then rmtree flatpak_dir else ret ()) (\<lambda>_.
         bnd (run_command e
                [''flatpak-builder'', ''--force-clean'', ''--user'',
                 ''--install-deps-from=flathub'', flatpak_dir, manifest] False True) (\<lambda>_.
         bnd (print ''Flatpak package created successfully!'') (\<lambda>_.
         ret True))))))"

subsection \<open>\<^verbatim>\<open>package_windows\<close>\<close>

definition portable_dir :: string where
  "portable_dir = ''amberol-windows-portable''"

definition dist_dir :: string where
  "dist_dir = ''dist''"

definition zip_name :: string where
  "zip_name = ''amberol-windows-portable.zip''"

definition iss_file :: string where
  "iss_file = ''amberol-installer.iss''"

text \<open>
  \<^verbatim>\<open>Path.mkdir(exist_ok=True)\<close>: creates the directory, accepts an existing directory and
  raises when the path is a regular file.
\<close>

definition mkdir_exist_ok :: "string \<Rightarrow> unit prog" where
  "mkdir_exist_ok name s =
     (case cwd (host s) name of
        None \<Rightarrow>
          (Inr (), s\<lparr>host := (host s)\<lparr>cwd := (cwd (host s))(name \<mapsto> Dir [])\<rparr>,
                     trace := trace s @ [Mkdir name]\<rparr>)
      | Some (Dir es) \<Rightarrow> (Inr (), s\<lparr>trace := trace s @ [Mkdir name]\<rparr>)
      | Some File \<Rightarrow> (Inl OSError, s\<lparr>trace := trace s @ [Mkdir name]\<rparr>))"

text \<open>
  \<^verbatim>\<open>zipfile.ZipFile(d/name, 'w')\<close>: creates or truncates the regular file \<open>name\<close> in the
  directory \<open>d\<close>; opening fails when \<open>d\<close> is no directory or \<open>name\<close> is one.
\<close>

definition zip_open :: "string \<Rightarrow> string \<Rightarrow> unit prog" where
  "zip_open d name s =
     (case cwd (host s) d of
        Some (Dir es) \<Rightarrow>
          (case map_of es name of
             Some (Dir sub) \<Rightarrow> (Inl OSError, s\<lparr>trace := trace s @ [ZipOpen [d, name]]\<rparr>)
           | _ \<Rightarrow>
             (Inr (), s\<lparr>host := (host s)\<lparr>cwd := (cwd (host s))
                                       (d \<mapsto> Dir (AList.update name File es))\<rparr>,
                        trace := trace s @ [ZipOpen [d, name]]\<rparr>))
      | _ \<Rightarrow> (Inl OSError, s\<lparr>trace := trace s @ [ZipOpen [d, name]]\<rparr>))"

text \<open>
  \<^verbatim>\<open>os.walk\<close>, top down: one triple (directory, names of its subdirectories, names of
  its other entries) for the directory itself, then the triples of each subdirectory.
  Walking something that is no directory yields nothing.
\<close>

fun is_dir :: "node \<Rightarrow> bool" where
  "is_dir (Dir es) = True"
| "is_dir File = False"

definition dir_names :: "(string \<times> node) list \<Rightarrow> string list" where
  "dir_names es = map fst (filter (\<lambda>(n, t). is_dir t) es)"

definition file_names :: "(string \<times> node) list \<Rightarrow> string list" where
  "file_names es = map fst (filter (\<lambda>(n, t). \<not> is_dir t) es)"

fun walk :: "path \<Rightarrow> node \<Rightarrow> (path \<times> string list \<times> string list) list" where
  "walk root File = []"
| "walk root (Dir es) =
     (root, dir_names es, file_names es)
     # concat (map (\<lambda>(n, t). walk (root @ [n]) t) (filter (\<lambda>(n, t). is_dir t) es))"

definition os_walk :: "string \<Rightarrow> (path \<times> string list \<times> string list) list prog" where
  "os_walk name s =
     (Inr (case cwd (host s) name of None \<Rightarrow> [] | Some t \<Rightarrow> walk [name] t), s)"

text \<open>The two nested loops that fill the archive.\<close>

fun zip_files :: "path \<Rightarrow> string list \<Rightarrow> unit prog" where
  "zip_files root [] = ret ()"
| "zip_files root (file # files) =
     (let file_path = root @ [file] in
      case relative_to file_path (parent [portable_dir]) of
        Inl x \<Rightarrow> raise x
      | Inr arc_path \<Rightarrow>
          bnd (emit (ZipWrite file_path (join ''/'' arc_path))) (\<lambda>_. zip_files root files))"

fun zip_walk :: "(path \<times> string list \<times> string list) list \<Rightarrow> unit prog" where
  "zip_walk [] = ret ()"
| "zip_walk ((root, dirs, files) # rest) = bnd (zip_files root files) (\<lambda>_. zip_walk rest)"

definition path_of :: "string option \<Rightarrow> string" where
  "path_of r = (case r of Some p \<Rightarrow> p | None \<Rightarrow> [])"

definition package_windows :: "env \<Rightarrow> args \<Rightarrow> bool prog" where
  "package_windows e a =
     bnd (print ''Packaging Windows distribution...'') (\<lambda>_.
     bnd (path_exists portable_dir) (\<lambda>ex.
       if \<not> ex then
         bnd (print ''Windows portable build not found!'') (\<lambda>_.
         bnd (print ''Run build with Windows target first.'') (\<lambda>_.
         ret False))
       else
         bnd (mkdir_exist_ok dist_dir) (\<lambda>_.
         bnd (print ''Creating portable ZIP archive...'') (\<lambda>_.
         bnd (zip_open dist_dir zip_name) (\<lambda>_.
         bnd (os_walk portable_dir) (\<lambda>triples.
         bnd (zip_walk triples) (\<lambda>_.
         bnd (which ''iscc'') (\<lambda>inno_setup.
         bnd (if truthy inno_setup then
                bnd (print ''Creating Windows installer...'') (\<lambda>_.
                bnd (path_exists iss_file) (\<lambda>ex.
                  if ex then
                    bnd (run_command e [path_of inno_setup, iss_file] False True) (\<lambda>_. ret ())
                  else print ''Installer script not found, skipping installer creation''))
              else print ''Inno Setup not found, skipping installer creation'') (\<lambda>_.
         bnd (print ''Windows packaging completed!'') (\<lambda>_.
         ret True))))))))))"

subsection \<open>\<^verbatim>\<open>main\<close>\<close>

text \<open>
  \<^verbatim>\<open>main\<close> after \<^verbatim>\<open>argparse\<close> has accepted the command line. The four blocks update the
  variable \<^verbatim>\<open>success\<close> in the order of the source.
\<close>

definition main :: "env \<Rightarrow> args \<Rightarrow> unit prog" where
  "main e a =
     (let current_platform = detect_platform e in
      bnd (print (''Current platform: '' @ current_platform)) (\<lambda>_.
      bnd (print (''Build target: '' @ target_str (target a))) (\<lambda>_.
      bnd (if target a = Linux \<or> target a = All
           then bnd (build_linux e a) (\<lambda>b. ret (True \<and> b))
           else ret True) (\<lambda>success.
      bnd (if target a = Windows \<or> target a = All
           then if current_platform = ''windows''
                then bnd (build_windows e a) (\<lambda>b. ret (success \<and> b))
                else bnd (print ''Windows builds can only be created on Windows with MSYS2'')
                       (\<lambda>_. ret False)
           else ret success) (\<lambda>success.
      bnd (if target a = Flatpak
           then if current_platform = ''linux''
                then bnd (create_flatpak e a) (\<lambda>b. ret (success \<and> b))
                else bnd (print ''Flatpak packages can only be created on Linux'')
                       (\<lambda>_. ret False)
           else ret success) (\<lambda>success.
      bnd (if target a = PackageWindows
           then bnd (package_windows e a) (\<lambda>b. ret (success \<and> b))
           else ret success) (\<lambda>success.
      if success then print ''\<newline>Build process completed successfully!''
      else bnd (print ''\<newline>Build process failed!'') (\<lambda>_. raise (SystemExit 1)))))))))"

section \<open>The cargo build driver: \<^verbatim>\<open>build_cargo.py\<close>\<close>










section \<open>Vocabulary of the statements\<close>

text \<open>The events that a run adds to the trace it started with.\<close>

definition new_events :: "world \<Rightarrow> world \<Rightarrow> event list" where
  "new_events s s' = drop (length (trace s)) (trace s')"

fun is_proc :: "event \<Rightarrow> bool" where
  "is_proc (Proc cmd shell h out) = True"
| "is_proc _ = False"

fun is_archive :: "event \<Rightarrow> bool" where
  "is_archive (Mkdir d) = True"
| "is_archive (ZipOpen p) = True"
| "is_archive (ZipWrite p n) = True"
| "is_archive _ = False"

text \<open>An external process that ended with a return code other than 0.\<close>

fun failing :: "event \<Rightarrow> bool" where
  "failing (Proc cmd shell h (Exited c)) = (c \<noteq> 0)"
| "failing _ = False"

text \<open>The line that reports a missing tool with its install hint.\<close>

definition missing_line :: "string \<times> string \<Rightarrow> event" where
  "missing_line = (\<lambda>(cmd, package). Print (''  '' @ cmd @ '' (install '' @ package @ '')''))"

definition unresolved :: "host \<Rightarrow> (string \<times> string) list \<Rightarrow> (string \<times> string) list" where
  "unresolved h deps = filter (\<lambda>(cmd, package). \<not> truthy (onpath h cmd)) deps"

text \<open>The state after the two lines that \<^verbatim>\<open>main\<close> prints first.\<close>

definition header :: "env \<Rightarrow> args \<Rightarrow> world \<Rightarrow> world" where
  "header e a s =
     s\<lparr>trace := trace s @ [Print (''Current platform: '' @ detect_platform e),
                            Print (''Build target: '' @ target_str (target a))]\<rparr>"


text \<open>The configure step is the process \<^verbatim>\<open>meson setup ...\<close>.\<close>

definition is_configure :: "string list \<Rightarrow> bool" where
  "is_configure cmd = (take 2 cmd = [''meson'', ''setup''])"

text \<open>
  \<open>failfast r evs\<close>: either no process among the events \<open>evs\<close> failed, or the run ended
  with \<^verbatim>\<open>sys.exit(1)\<close> right after the first failing process and the line that reports it.
\<close>

definition failfast :: "exn + 'a \<Rightarrow> event list \<Rightarrow> bool" where
  "failfast r evs =
     ((\<forall>ev \<in> set evs. \<not> failing ev)
      \<or> (r = Inl (SystemExit 1)
          \<and> (\<exists>pre cmd shell h c.
                evs = pre @ [Proc cmd shell h (Exited c), PrintError cmd c]
                \<and> c \<noteq> 0 \<and> (\<forall>ev \<in> set pre. \<not> failing ev))))"

text \<open>
  \<open>wf_run Q m\<close>: from every state the program \<open>m\<close> only appends events to the trace, every
  new event satisfies \<open>Q\<close>, the only exceptions that leave \<open>m\<close> are \<^verbatim>\<open>SystemExit(1)\<close> and
  \<^verbatim>\<open>OSError\<close>, and the run is fail-fast.
\<close>

definition wf_run :: "(event \<Rightarrow> bool) \<Rightarrow> 'a prog \<Rightarrow> bool" where
  "wf_run Q m =
     (\<forall>s. \<exists>evs. trace (snd (m s)) = trace s @ evs
             \<and> (\<forall>ev \<in> set evs. Q ev)
             \<and> (\<forall>x. fst (m s) = Inl x \<longrightarrow> x = SystemExit 1 \<or> x = OSError)
             \<and> failfast (fst (m s)) evs)"

text \<open>The commands of the processes that ended, each with its return code.\<close>

fun proc_codes :: "event list \<Rightarrow> (string list \<times> int) list" where
  "proc_codes [] = []"
| "proc_codes (Proc cmd shell h (Exited c) # evs) = (cmd, c) # proc_codes evs"
| "proc_codes (ev # evs) = proc_codes evs"

text \<open>
  The events of the Flatpak sub-target: its four messages, its process and the removal
  of its build directory.
\<close>

fun flatpak_event :: "event \<Rightarrow> bool" where
  "flatpak_event (Print msg) =
     (msg = ''Creating Flatpak package...''
      \<or> msg = ''Flatpak packages can only be created on Linux''
      \<or> msg = ''Flatpak manifest not found!''
      \<or> msg = ''Flatpak package created successfully!'')"
| "flatpak_event (Proc cmd shell h out) = (take 1 cmd = [''flatpak-builder''])"
| "flatpak_event (Rmtree name) = (name = flatpak_dir)"
| "flatpak_event _ = False"

text \<open>The last step of \<^verbatim>\<open>main\<close>: the banner, and \<^verbatim>\<open>sys.exit(1)\<close> on failure.\<close>

definition banner :: "bool \<Rightarrow> unit prog" where
  "banner success =
     (if success then print ''\<newline>Build process completed successfully!''
      else bnd (print ''\<newline>Build process failed!'') (\<lambda>_. raise (SystemExit 1)))"



text \<open>The files that the two loops of the packager visit, in order.\<close>

definition walk_files :: "(path \<times> string list \<times> string list) list \<Rightarrow> path list" where
  "walk_files triples = concat (map (\<lambda>(root, dirs, files). map (\<lambda>file. root @ [file]) files) triples)"

text \<open>
  The archive can be opened for writing: \<^verbatim>\<open>dist\<close> is not a regular file, and
  \<^verbatim>\<open>dist/amberol-windows-portable.zip\<close> is not a directory.
\<close>

definition dist_entries :: "host \<Rightarrow> (string \<times> node) list" where
  "dist_entries h = (case cwd h dist_dir of Some (Dir es) \<Rightarrow> es | _ \<Rightarrow> [])"

definition archive_ok :: "host \<Rightarrow> bool" where
  "archive_ok h =
     (cwd h dist_dir \<noteq> Some File
      \<and> (case map_of (dist_entries h) zip_name of Some t \<Rightarrow> \<not> is_dir t | None \<Rightarrow> True))"

text \<open>The host and the events after the archive has been written.\<close>

definition archived :: "host \<Rightarrow> host" where
  "archived h = h\<lparr>cwd := (cwd h)(dist_dir \<mapsto> Dir (AList.update zip_name File (dist_entries h)))\<rparr>"

definition archive_events :: "node \<Rightarrow> event list" where
  "archive_events t =
     [Print ''Packaging Windows distribution...'', Mkdir dist_dir,
      Print ''Creating portable ZIP archive...'', ZipOpen [dist_dir, zip_name]]
     @ map (\<lambda>p. ZipWrite p (join ''/'' p)) (walk_files (walk [portable_dir] t))"

text \<open>The command line of the installer generator.\<close>

definition iscc_cmd :: "host \<Rightarrow> string list" where
  "iscc_cmd h = [path_of (onpath h ''iscc''), iss_file]"

subsection \<open>Sample hosts and environments\<close>

text \<open>The search path with the three tools of the native pipeline, and a host with \<^verbatim>\<open>ninja\<close> alone.\<close>

definition tools :: "string \<Rightarrow> string option" where
  "tools = [''meson'' \<mapsto> ''/usr/bin/meson'', ''ninja'' \<mapsto> ''/usr/bin/ninja'',
            ''cargo'' \<mapsto> ''/usr/bin/cargo'']"

definition bare_host :: host where
  "bare_host = \<lparr>cwd = Map.empty, msys64 = False, onpath = [''ninja'' \<mapsto> ''/usr/bin/ninja'']\<rparr>"

definition bare_world :: world where
  "bare_world = \<lparr>host = bare_host, trace = []\<rparr>"

definition linux_env :: env where
  "linux_env = \<lparr>system = ''Linux'', exec = (\<lambda>cmd shell h. (Exited 0, h))\<rparr>"

definition sample_args :: "target \<Rightarrow> args" where
  "sample_args t = \<lparr>target = t, buildtype = Release, profile = Default,
                    prefix = ''/usr/local'', clean = True, install = False\<rparr>"



text \<open>
  A Linux host with the three tools and a build directory left by an earlier build, and
  an environment in which \<^verbatim>\<open>meson setup\<close> creates the build directory and every process
  ends with status 0.
\<close>

definition built_host :: host where
  "built_host =
     \<lparr>cwd = [build_dir \<mapsto> Dir [(''sentinel'', File)]], msys64 = False, onpath = tools\<rparr>"

definition built_world :: world where
  "built_world = \<lparr>host = built_host, trace = []\<rparr>"

definition meson_env :: env where
  "meson_env =
     \<lparr>system = ''Linux'',
      exec = (\<lambda>cmd shell h.
        if is_configure cmd
        then (Exited 0, h\<lparr>cwd := (cwd h)(build_dir \<mapsto> Dir [(''build.ninja'', File)])\<rparr>)
        else (Exited 0, h))\<rparr>"

text \<open>An environment in which every process fails with status 2.\<close>

definition broken_env :: env where
  "broken_env = \<lparr>system = ''Linux'', exec = (\<lambda>cmd shell h. (Exited 2, h))\<rparr>"

text \<open>A Linux host with the three tools and an empty invocation directory.\<close>

definition tools_world :: world where
  "tools_world = \<lparr>host = \<lparr>cwd = Map.empty, msys64 = False, onpath = tools\<rparr>, trace = []\<rparr>"

text \<open>A host that reports an operating system the script does not know, and a FreeBSD host.\<close>

definition darwin_env :: env where
  "darwin_env = \<lparr>system = ''Darwin'', exec = (\<lambda>cmd shell h. (Exited 0, h))\<rparr>"

definition freebsd_env :: env where
  "freebsd_env = \<lparr>system = ''FreeBSD'', exec = (\<lambda>cmd shell h. (Exited 0, h))\<rparr>"

text \<open>
  A Windows host with a portable build and an installer definition, on which the
  installer generator is installed, and an environment in which it fails.
\<close>

definition portable_tree :: node where
  "portable_tree = Dir [(''a.txt'', File), (''sub'', Dir [(''b.txt'', File)])]"

definition portable_world :: world where
  "portable_world =
     \<lparr>host = \<lparr>cwd = [portable_dir \<mapsto> portable_tree, iss_file \<mapsto> File], msys64 = True,
              onpath = [''iscc'' \<mapsto> ''C:/InnoSetup/iscc.exe'']\<rparr>,
      trace = []\<rparr>"

definition iscc_fails :: env where
  "iscc_fails = \<lparr>system = ''Windows'', exec = (\<lambda>cmd shell h. (Exited 3, h))\<rparr>"

section \<open>Properties\<close>

subsection \<open>Unfolding the primitives\<close>

lemmas prog_defs = bnd_def ret_def raise_def emit_def print_def path_exists_def which_def

subsection \<open>The dependency checker\<close>

lemma collect_missing_eq:
  "collect_missing deps acc s = (Inr (acc @ unresolved (host s) deps), s)"
  by (induction deps arbitrary: acc) (auto simp: prog_defs unresolved_def)

lemma print_missing_eq:
  "print_missing ms s = (Inr (), s\<lparr>trace := trace s @ map missing_line ms\<rparr>)"
  by (induction ms arbitrary: s) (auto simp: prog_defs missing_line_def)

lemma check_dependencies_eq:
  "check_dependencies deps s =
     (if unresolved (host s) deps = [] then (Inr True, s)
      else (Inr False,
            s\<lparr>trace := trace s @ [Print ''Missing dependencies:'']
                 @ map missing_line (unresolved (host s) deps)
                 @ [Print ''\<newline>Install missing dependencies and try again.'']\<rparr>))"
  by (simp add: check_dependencies_def bnd_def collect_missing_eq print_missing_eq ret_def
      print_def emit_def)

lemma unresolved_Nil_iff: "unresolved h deps = [] \<longleftrightarrow> (\<forall>(cmd, package) \<in> set deps. truthy (onpath h cmd))"
  by (auto simp: unresolved_def filter_empty_conv)

lemma unresolved_mem:
  "(cmd, package) \<in> set (unresolved h deps) \<longleftrightarrow>
     (cmd, package) \<in> set deps \<and> \<not> truthy (onpath h cmd)"
  by (auto simp: unresolved_def)

text \<open>
  Claim C3. For every dependency list, the checker looks at every (executable, hint)
  pair, leaves the host as it is, prints a line with the install hint for every entry
  that \<^verbatim>\<open>shutil.which\<close> does not resolve (all of them, in the order of the list, between
  the heading and the closing line), and returns false if and only if at least one entry
  is not resolved. \<^verbatim>\<open>check_dependencies_linux\<close> is the instance for the list in the source.
\<close>

theorem check_dependencies_reports_all:
  "fst (check_dependencies deps s) = Inr (\<forall>(cmd, package) \<in> set deps. truthy (onpath (host s) cmd))
   \<and> host (snd (check_dependencies deps s)) = host s
   \<and> new_events s (snd (check_dependencies deps s)) =
       (if unresolved (host s) deps = [] then []
        else [Print ''Missing dependencies:''] @ map missing_line (unresolved (host s) deps)
             @ [Print ''\<newline>Install missing dependencies and try again.''])
   \<and> (\<forall>(cmd, package) \<in> set deps. \<not> truthy (onpath (host s) cmd) \<longrightarrow>
         Print (''  '' @ cmd @ '' (install '' @ package @ '')'')
           \<in> set (new_events s (snd (check_dependencies deps s))))"
proof -
  let ?m = "unresolved (host s) deps"
  have res: "fst (check_dependencies deps s) =
               Inr (\<forall>(cmd, package) \<in> set deps. truthy (onpath (host s) cmd))"
    using unresolved_Nil_iff [of "host s" deps] by (simp add: check_dependencies_eq)
  have hst: "host (snd (check_dependencies deps s)) = host s"
    by (simp add: check_dependencies_eq)
  have evs: "new_events s (snd (check_dependencies deps s)) =
       (if ?m = [] then []
        else [Print ''Missing dependencies:''] @ map missing_line ?m
             @ [Print ''\<newline>Install missing dependencies and try again.''])"
    by (simp add: check_dependencies_eq new_events_def)
  have "Print (''  '' @ cmd @ '' (install '' @ package @ '')'')
          \<in> set (new_events s (snd (check_dependencies deps s)))"
    if "(cmd, package) \<in> set deps" and "\<not> truthy (onpath (host s) cmd)" for cmd package
  proof -
    from that have m: "(cmd, package) \<in> set ?m"
      by (simp add: unresolved_mem)
    then have "?m \<noteq> []" by auto
    moreover from m have "missing_line (cmd, package) \<in> set (map missing_line ?m)"
      by (simp only: set_map) (rule imageI)
    ultimately show ?thesis
      by (simp add: evs missing_line_def)
  qed
  with res hst evs show ?thesis by blast
qed

theorem check_dependencies_reports_all_witness:
  "fst (check_dependencies_linux bare_world) = Inr False
   \<and> new_events bare_world (snd (check_dependencies_linux bare_world)) =
       [Print ''Missing dependencies:'', Print ''  meson (install meson)'',
        Print ''  cargo (install rust)'',
        Print ''\<newline>Install missing dependencies and try again.'']"
  using check_dependencies_reports_all [of linux_deps bare_world]
  by (simp add: check_dependencies_linux_def linux_deps_def bare_world_def bare_host_def
      unresolved_def truthy_def missing_line_def)

subsection \<open>A Windows build requested on another platform\<close>

text \<open>
  Claim C4. A run with target \<^verbatim>\<open>windows\<close> on a host whose detected platform is not
  \<^verbatim>\<open>windows\<close> prints the platform-mismatch message and the failure banner and exits
  with status 1; it starts no external process and leaves the host as it is.
\<close>

theorem windows_target_platform_mismatch:
  assumes "target a = Windows" and "detect_platform e \<noteq> ''windows''"
  shows "main e a s =
           (Inl (SystemExit 1),
            s\<lparr>trace := trace s @
                 [Print (''Current platform: '' @ detect_platform e),
                  Print ''Build target: windows'',
                  Print ''Windows builds can only be created on Windows with MSYS2'',
                  Print ''\<newline>Build process failed!'']\<rparr>)
         \<and> exit_code (fst (main e a s)) = 1
         \<and> (\<forall>ev \<in> set (new_events s (snd (main e a s))). \<not> is_proc ev)"
  using assms by (simp add: main_def prog_defs new_events_def)

theorem windows_target_platform_mismatch_witness:
  "target (sample_args Windows) = Windows \<and> detect_platform linux_env \<noteq> ''windows''
   \<and> main linux_env (sample_args Windows) bare_world =
       (Inl (SystemExit 1),
        bare_world\<lparr>trace :=
          [Print ''Current platform: linux'',
           Print ''Build target: windows'',
           Print ''Windows builds can only be created on Windows with MSYS2'',
           Print ''\<newline>Build process failed!'']\<rparr>)"
proof -
  have t: "target (sample_args Windows) = Windows"
    by (simp add: sample_args_def)
  have p: "detect_platform linux_env = ''linux''"
    by (simp add: detect_platform_def linux_env_def lower_def lower_char_def)
  then have q: "detect_platform linux_env \<noteq> ''windows''" by simp
  show ?thesis
    using windows_target_platform_mismatch [OF t q, of bare_world] t p
    by (simp add: bare_world_def)
qed

subsection \<open>Packaging without a portable build\<close>

lemma package_windows_eq_missing:
  "cwd (host s) portable_dir = None \<Longrightarrow>
   package_windows e a s =
     (Inr False,
      s\<lparr>trace := trace s @
           [Print ''Packaging Windows distribution...'',
            Print ''Windows portable build not found!'',
            Print ''Run build with Windows target first.'']\<rparr>)"
  by (simp add: package_windows_def prog_defs)

text \<open>
  Claim C6. When the portable-build directory does not exist, the distribution packager
  returns false after the two lines that tell the caller to build first; it creates no
  directory, opens no archive, writes no entry, starts no process and leaves the host
  as it is.
\<close>

theorem package_windows_missing_portable_dir:
  assumes "cwd (host s) portable_dir = None"
  shows "package_windows e a s =
           (Inr False,
            s\<lparr>trace := trace s @
                 [Print ''Packaging Windows distribution...'',
                  Print ''Windows portable build not found!'',
                  Print ''Run build with Windows target first.'']\<rparr>)
         \<and> host (snd (package_windows e a s)) = host s
         \<and> (\<forall>ev \<in> set (new_events s (snd (package_windows e a s))).
               \<not> is_archive ev \<and> \<not> is_proc ev)"
  by (simp add: package_windows_eq_missing [OF assms] new_events_def)

theorem package_windows_missing_portable_dir_witness:
  "cwd (host bare_world) portable_dir = None
   \<and> package_windows linux_env (sample_args PackageWindows) bare_world =
       (Inr False,
        bare_world\<lparr>trace :=
          [Print ''Packaging Windows distribution...'',
           Print ''Windows portable build not found!'',
           Print ''Run build with Windows target first.'']\<rparr>)"
proof -
  have h: "cwd (host bare_world) portable_dir = None"
    by (simp add: bare_world_def bare_host_def)
  show ?thesis
    using package_windows_missing_portable_dir [OF h, of linux_env "sample_args PackageWindows"] h
    by (simp add: bare_world_def)
qed

subsection \<open>The cargo build driver\<close>






subsection \<open>The native pipeline\<close>

lemma run_command_eq:
  "run_command e cmd shell check s =
     (case exec e cmd shell (host s) of (out, h') \<Rightarrow>
        (let s' = s\<lparr>host := h',
                    trace := trace s @ [Print (''Running: '' @ join '' '' cmd),
                                        Proc cmd shell (host s) out]\<rparr> in
         case out of
           LaunchError \<Rightarrow> (Inl OSError, s')
         | Exited c \<Rightarrow>
             if check \<and> c \<noteq> 0
             then (Inl (SystemExit 1), s'\<lparr>trace := trace s' @ [PrintError cmd c]\<rparr>)
             else (Inr c, s')))"
  by (simp add: run_command_def prog_defs Let_def split: prod.splits outcome.splits)

lemma is_configure_meson_args [simp]: "is_configure (meson_args a)"
  by (simp add: is_configure_def meson_args_def)

lemma not_configure_compile [simp]: "\<not> is_configure [''meson'', ''compile'', ''-C'', d]"
  by (simp add: is_configure_def)

lemma not_configure_install [simp]: "\<not> is_configure [''sudo'', ''meson'', ''install'', ''-C'', d]"
  by (simp add: is_configure_def)



subsection \<open>Runs only extend the trace, and stop at the first failing process\<close>

lemma failfast_Inr_append:
  assumes "failfast (Inr a) evs1" and "failfast r evs2"
  shows "failfast r (evs1 @ evs2)"
proof -
  from assms(1) have ok1: "\<forall>ev \<in> set evs1. \<not> failing ev"
    by (simp add: failfast_def)
  from assms(2) show ?thesis
    unfolding failfast_def
  proof (elim disjE conjE exE)
    assume "\<forall>ev \<in> set evs2. \<not> failing ev"
    with ok1 show "(\<forall>ev \<in> set (evs1 @ evs2). \<not> failing ev) \<or>
      (r = Inl (SystemExit 1) \<and> (\<exists>pre cmd shell h c.
         evs1 @ evs2 = pre @ [Proc cmd shell h (Exited c), PrintError cmd c]
         \<and> c \<noteq> 0 \<and> (\<forall>ev \<in> set pre. \<not> failing ev)))"
      by auto
  next
    fix pre cmd shell h c
    assume r: "r = Inl (SystemExit 1)"
      and e: "evs2 = pre @ [Proc cmd shell h (Exited c), PrintError cmd c]"
      and c: "c \<noteq> 0" and p: "\<forall>ev \<in> set pre. \<not> failing ev"
    from e have "evs1 @ evs2 = (evs1 @ pre) @ [Proc cmd shell h (Exited c), PrintError cmd c]"
      by simp
    moreover from ok1 p have "\<forall>ev \<in> set (evs1 @ pre). \<not> failing ev"
      by auto
    ultimately show "(\<forall>ev \<in> set (evs1 @ evs2). \<not> failing ev) \<or>
      (r = Inl (SystemExit 1) \<and> (\<exists>pre cmd shell h c.
         evs1 @ evs2 = pre @ [Proc cmd shell h (Exited c), PrintError cmd c]
         \<and> c \<noteq> 0 \<and> (\<forall>ev \<in> set pre. \<not> failing ev)))"
      using r c by blast
  qed
qed

lemma failfast_Inl_cast:
  "failfast (Inl x :: exn + 'a) evs \<Longrightarrow> failfast (Inl x :: exn + 'b) evs"
  by (simp add: failfast_def)

lemma wf_bnd:
  assumes m: "wf_run Q m" and f: "\<And>a. wf_run Q (f a)"
  shows "wf_run Q (bnd m f)"
  unfolding wf_run_def
proof
  fix s
  from m obtain evs1 where t1: "trace (snd (m s)) = trace s @ evs1"
    and q1: "\<forall>ev \<in> set evs1. Q ev"
    and x1: "\<forall>x. fst (m s) = Inl x \<longrightarrow> x = SystemExit 1 \<or> x = OSError"
    and f1: "failfast (fst (m s)) evs1"
    unfolding wf_run_def by blast
  show "\<exists>evs. trace (snd (bnd m f s)) = trace s @ evs
          \<and> (\<forall>ev \<in> set evs. Q ev)
          \<and> (\<forall>x. fst (bnd m f s) = Inl x \<longrightarrow> x = SystemExit 1 \<or> x = OSError)
          \<and> failfast (fst (bnd m f s)) evs"
  proof (cases "m s")
    case (Pair r s1)
    show ?thesis
    proof (cases r)
      case (Inl x)
      with Pair have b: "bnd m f s = (Inl x, s1)"
        by (simp add: bnd_def)
      from f1 Pair Inl have "failfast (Inl x :: exn + 'b) evs1"
        by (simp add: failfast_Inl_cast)
      with t1 q1 x1 Pair Inl b show ?thesis
        by auto
    next
      case (Inr a)
      with Pair have b: "bnd m f s = f a s1"
        by (simp add: bnd_def)
      from f [of a] obtain evs2 where t2: "trace (snd (f a s1)) = trace s1 @ evs2"
        and q2: "\<forall>ev \<in> set evs2. Q ev"
        and x2: "\<forall>x. fst (f a s1) = Inl x \<longrightarrow> x = SystemExit 1 \<or> x = OSError"
        and f2: "failfast (fst (f a s1)) evs2"
        unfolding wf_run_def by blast
      from f1 Pair Inr f2 have "failfast (fst (f a s1)) (evs1 @ evs2)"
        by (simp add: failfast_Inr_append)
      moreover from t1 t2 Pair have "trace (snd (f a s1)) = trace s @ (evs1 @ evs2)"
        by simp
      moreover from q1 q2 have "\<forall>ev \<in> set (evs1 @ evs2). Q ev"
        by auto
      ultimately show ?thesis
        using x2 b by metis
    qed
  qed
qed

lemma wf_quiet:
  assumes "\<And>s. trace (snd (m s)) = trace s" and "\<And>s. \<exists>a. fst (m s) = Inr a"
  shows "wf_run Q m"
  unfolding wf_run_def
proof
  fix s
  from assms(2) [of s] obtain a where "fst (m s) = Inr a" ..
  with assms(1) [of s] show "\<exists>evs. trace (snd (m s)) = trace s @ evs
          \<and> (\<forall>ev \<in> set evs. Q ev)
          \<and> (\<forall>x. fst (m s) = Inl x \<longrightarrow> x = SystemExit 1 \<or> x = OSError)
          \<and> failfast (fst (m s)) evs"
    by (intro exI [of _ "[]"]) (simp add: failfast_def)
qed

lemma wf_ret: "wf_run Q (ret a)"
  by (rule wf_quiet) (simp_all add: ret_def)

lemma wf_path_exists: "wf_run Q (path_exists name)"
  by (rule wf_quiet) (simp_all add: path_exists_def)

lemma wf_which: "wf_run Q (which cmd)"
  by (rule wf_quiet) (simp_all add: which_def)

lemma wf_os_walk: "wf_run Q (os_walk name)"
  by (rule wf_quiet) (simp_all add: os_walk_def)

text \<open>A step that adds one event that is no process and raises at most \<^verbatim>\<open>OSError\<close>.\<close>

lemma wf_single:
  assumes "\<And>s. trace (snd (m s)) = trace s @ [ev]" and "Q ev" and "\<not> failing ev"
    and "\<And>s x. fst (m s) = Inl x \<Longrightarrow> x = OSError"
  shows "wf_run Q m"
  unfolding wf_run_def
proof
  fix s
  from assms show "\<exists>evs. trace (snd (m s)) = trace s @ evs
          \<and> (\<forall>ev \<in> set evs. Q ev)
          \<and> (\<forall>x. fst (m s) = Inl x \<longrightarrow> x = SystemExit 1 \<or> x = OSError)
          \<and> failfast (fst (m s)) evs"
    by (intro exI [of _ "[ev]"]) (auto simp: failfast_def)
qed

lemma wf_emit: "Q ev \<Longrightarrow> \<not> failing ev \<Longrightarrow> wf_run Q (emit ev)"
  by (rule wf_single [where ev = ev]) (simp_all add: emit_def)

lemma wf_print: "Q (Print msg) \<Longrightarrow> wf_run Q (print msg)"
  by (simp add: print_def wf_emit)

lemma wf_rmtree: "Q (Rmtree name) \<Longrightarrow> wf_run Q (rmtree name)"
  by (rule wf_single [where ev = "Rmtree name"])
     (auto simp: rmtree_def split: option.splits node.splits)

lemma wf_mkdir: "Q (Mkdir name) \<Longrightarrow> wf_run Q (mkdir_exist_ok name)"
  by (rule wf_single [where ev = "Mkdir name"])
     (auto simp: mkdir_exist_ok_def split: option.splits node.splits)

lemma wf_zip_open: "Q (ZipOpen [d, name]) \<Longrightarrow> wf_run Q (zip_open d name)"
  by (rule wf_single [where ev = "ZipOpen [d, name]"])
     (auto simp: zip_open_def split: option.splits node.splits)

lemma wf_exit: "wf_run Q (raise (SystemExit 1))"
  unfolding wf_run_def
  by (intro allI exI [of _ "[]"]) (simp add: raise_def failfast_def)

lemma wf_run_command:
  assumes "Q (Print (''Running: '' @ join '' '' cmd))"
    and "\<And>h out. Q (Proc cmd shell h out)" and "\<And>c. Q (PrintError cmd c)"
  shows "wf_run Q (run_command e cmd shell True)"
  unfolding wf_run_def
proof
  fix s :: world
  let ?p = "Print (''Running: '' @ join '' '' cmd)"
  obtain out h' where x: "exec e cmd shell (host s) = (out, h')"
    by (cases "exec e cmd shell (host s)")
  show "\<exists>evs. trace (snd (run_command e cmd shell True s)) = trace s @ evs
          \<and> (\<forall>ev \<in> set evs. Q ev)
          \<and> (\<forall>x. fst (run_command e cmd shell True s) = Inl x \<longrightarrow> x = SystemExit 1 \<or> x = OSError)
          \<and> failfast (fst (run_command e cmd shell True s)) evs"
  proof (cases out)
    case LaunchError
    with x assms show ?thesis
      by (intro exI [of _ "[?p, Proc cmd shell (host s) LaunchError]"])
         (simp add: run_command_eq failfast_def)
  next
    case (Exited c)
    show ?thesis
    proof (cases "c = 0")
      case True
      with x Exited assms show ?thesis
        by (intro exI [of _ "[?p, Proc cmd shell (host s) (Exited 0)]"])
           (simp add: run_command_eq failfast_def)
    next
      case False
      have "failfast (Inl (SystemExit 1) :: exn + int)
              ([?p] @ [Proc cmd shell (host s) (Exited c), PrintError cmd c])"
        unfolding failfast_def using False
        by (intro disjI2 conjI exI [of _ "[?p]"] exI [of _ cmd] exI [of _ shell]
            exI [of _ "host s"] exI [of _ c]) simp_all
      with x Exited False assms show ?thesis
        by (intro exI [of _ "[?p, Proc cmd shell (host s) (Exited c), PrintError cmd c]"])
           (simp add: run_command_eq)
    qed
  qed
qed

lemma wf_collect_missing: "wf_run Q (collect_missing deps acc)"
  by (rule wf_quiet) (simp_all add: collect_missing_eq)

lemma wf_print_missing:
  "(\<And>d. Q (missing_line d)) \<Longrightarrow> wf_run Q (print_missing ms)"
proof (induction ms)
  case Nil
  show ?case by (simp add: wf_ret)
next
  case (Cons d ms)
  obtain cmd package where d: "d = (cmd, package)" by (cases d)
  from Cons.prems [of d] have "Q (Print (''  '' @ cmd @ '' (install '' @ package @ '')''))"
    by (simp add: d missing_line_def)
  with Cons show ?case
    by (simp add: d wf_bnd wf_print)
qed

lemma wf_check_dependencies:
  assumes "Q (Print ''Missing dependencies:'')" and "\<And>d. Q (missing_line d)"
    and "Q (Print ''\<newline>Install missing dependencies and try again.'')"
  shows "wf_run Q (check_dependencies deps)"
  unfolding check_dependencies_def using assms
  by (intro wf_bnd wf_collect_missing) (simp add: wf_bnd wf_print wf_ret wf_print_missing)

lemma wf_check_dependencies_windows:
  assumes "Q (Print ''MSYS2 not found at C:/msys64'')"
    and "Q (Print ''Please install MSYS2 from https://www.msys2.org/'')"
  shows "wf_run Q check_dependencies_windows"
proof -
  have eq: "check_dependencies_windows =
          bnd (\<lambda>s. (Inr (msys64 (host s)), s)) (\<lambda>ok.
            if \<not> ok then
              bnd (print ''MSYS2 not found at C:/msys64'') (\<lambda>_.
              bnd (print ''Please install MSYS2 from https://www.msys2.org/'') (\<lambda>_.
              ret False))
            else ret True)"
    by (rule ext) (simp add: check_dependencies_windows_def bnd_def)
  have "wf_run Q (\<lambda>s. (Inr (msys64 (host s)), s))"
    by (rule wf_quiet) simp_all
  with assms show ?thesis
    by (subst eq) (simp add: wf_bnd wf_print wf_ret)
qed

lemma relative_to_root [simp]: "relative_to p (parent [d]) = Inr p"
  by (simp add: relative_to_def parent_def)

lemma wf_zip_files:
  "(\<And>p n. Q (ZipWrite p n)) \<Longrightarrow> wf_run Q (zip_files root files)"
  by (induction files) (simp_all add: wf_ret wf_bnd wf_emit Let_def)

lemma wf_zip_walk:
  "(\<And>p n. Q (ZipWrite p n)) \<Longrightarrow> wf_run Q (zip_walk triples)"
  by (induction triples) (auto simp: wf_ret wf_bnd wf_zip_files)



lemma wf_if:
  "(b \<Longrightarrow> wf_run Q m1) \<Longrightarrow> (\<not> b \<Longrightarrow> wf_run Q m2) \<Longrightarrow> wf_run Q (if b then m1 else m2)"
  by simp

lemmas wf_steps = wf_if wf_bnd wf_ret wf_print wf_emit wf_exit wf_path_exists wf_which wf_os_walk
  wf_rmtree wf_mkdir wf_zip_open wf_zip_walk wf_run_command wf_check_dependencies
  wf_check_dependencies_windows

lemma wf_build_linux: "wf_run (\<lambda>ev. True) (build_linux e a)"
  unfolding build_linux_def check_dependencies_linux_def
  by (intro wf_steps | simp)+

lemma wf_build_windows: "wf_run (\<lambda>ev. True) (build_windows e a)"
  unfolding build_windows_def
  by (intro wf_steps | simp)+

lemma wf_create_flatpak: "wf_run (\<lambda>ev. True) (create_flatpak e a)"
  unfolding create_flatpak_def
  by (intro wf_steps | simp)+

lemma wf_package_windows: "wf_run (\<lambda>ev. True) (package_windows e a)"
  unfolding package_windows_def
  by (intro wf_steps | simp)+

lemma wf_main: "wf_run (\<lambda>ev. True) (main e a)"
  unfolding main_def Let_def
  by (intro wf_steps wf_build_linux wf_build_windows wf_create_flatpak wf_package_windows | simp)+

lemma new_events_wf:
  assumes "wf_run Q m"
  shows "trace (snd (m s)) = trace s @ new_events s (snd (m s))"
    and "\<forall>ev \<in> set (new_events s (snd (m s))). Q ev"
    and "failfast (fst (m s)) (new_events s (snd (m s)))"
    and "fst (m s) = Inl x \<Longrightarrow> x = SystemExit 1 \<or> x = OSError"
proof -
  from assms obtain evs where t: "trace (snd (m s)) = trace s @ evs"
    and q: "\<forall>ev \<in> set evs. Q ev"
    and x: "\<forall>x. fst (m s) = Inl x \<longrightarrow> x = SystemExit 1 \<or> x = OSError"
    and f: "failfast (fst (m s)) evs"
    unfolding wf_run_def by blast
  from t have n: "new_events s (snd (m s)) = evs"
    by (simp add: new_events_def)
  from t n show "trace (snd (m s)) = trace s @ new_events s (snd (m s))" by simp
  from q n show "\<forall>ev \<in> set (new_events s (snd (m s))). Q ev" by simp
  from f n show "failfast (fst (m s)) (new_events s (snd (m s)))" by simp
  from x show "fst (m s) = Inl x \<Longrightarrow> x = SystemExit 1 \<or> x = OSError" by simp
qed

lemma failfast_failing:
  assumes "failfast r evs" and "Proc cmd shell h (Exited c) \<in> set evs" and "c \<noteq> 0"
  shows "r = Inl (SystemExit 1)
         \<and> (\<exists>pre. evs = pre @ [Proc cmd shell h (Exited c), PrintError cmd c]
                  \<and> (\<forall>ev \<in> set pre. \<not> failing ev))"
proof -
  from assms(2,3) have "\<not> (\<forall>ev \<in> set evs. \<not> failing ev)"
    by force
  with assms(1) obtain pre cmd' shell' h' c'
    where r: "r = Inl (SystemExit 1)"
      and e: "evs = pre @ [Proc cmd' shell' h' (Exited c'), PrintError cmd' c']"
      and p: "\<forall>ev \<in> set pre. \<not> failing ev"
    unfolding failfast_def by blast
  from assms(2) e have "Proc cmd shell h (Exited c) \<in> set pre
      \<or> Proc cmd shell h (Exited c) = Proc cmd' shell' h' (Exited c')"
    by auto
  moreover from p assms(3) have "Proc cmd shell h (Exited c) \<notin> set pre"
    by force
  ultimately have "cmd' = cmd \<and> shell' = shell \<and> h' = h \<and> c' = c"
    by simp
  with r e p show ?thesis by blast
qed

text \<open>
  Claim C1, as the code has it. When a process started by \<^verbatim>\<open>run_command\<close> with
  \<^verbatim>\<open>check=True\<close> ends with a return code \<open>c\<close> other than 0, \<^verbatim>\<open>run_command\<close> prints the error
  line and raises \<^verbatim>\<open>SystemExit(1)\<close>. In a run of \<^verbatim>\<open>main\<close> such a process is the last one: the
  run ends right after the error line, and its exit status is 1, whatever \<open>c\<close> was.
\<close>

theorem failing_command_exits_with_1:
  "(exec e cmd shell (host s) = (Exited c, h') \<and> c \<noteq> 0 \<longrightarrow>
      run_command e cmd shell True s =
        (Inl (SystemExit 1),
         \<lparr>host = h',
          trace = trace s @ [Print (''Running: '' @ join '' '' cmd),
                             Proc cmd shell (host s) (Exited c), PrintError cmd c]\<rparr>))
   \<and> (Proc cmd shell h (Exited c) \<in> set (new_events s (snd (main e a s))) \<and> c \<noteq> 0 \<longrightarrow>
        fst (main e a s) = Inl (SystemExit 1)
        \<and> exit_code (fst (main e a s)) = 1
        \<and> (\<exists>pre. new_events s (snd (main e a s))
                    = pre @ [Proc cmd shell h (Exited c), PrintError cmd c]
                 \<and> (\<forall>ev \<in> set pre. \<not> failing ev)))"
proof (intro conjI impI)
  assume "exec e cmd shell (host s) = (Exited c, h') \<and> c \<noteq> 0"
  then show "run_command e cmd shell True s =
        (Inl (SystemExit 1),
         \<lparr>host = h',
          trace = trace s @ [Print (''Running: '' @ join '' '' cmd),
                             Proc cmd shell (host s) (Exited c), PrintError cmd c]\<rparr>)"
    by (simp add: run_command_eq)
next
  assume a: "Proc cmd shell h (Exited c) \<in> set (new_events s (snd (main e a s))) \<and> c \<noteq> 0"
  have "failfast (fst (main e a s)) (new_events s (snd (main e a s)))"
    by (rule new_events_wf(3) [OF wf_main])
  with a have r: "fst (main e a s) = Inl (SystemExit 1)
     \<and> (\<exists>pre. new_events s (snd (main e a s))
                    = pre @ [Proc cmd shell h (Exited c), PrintError cmd c]
              \<and> (\<forall>ev \<in> set pre. \<not> failing ev))"
    by (intro failfast_failing) simp_all
  from r show "fst (main e a s) = Inl (SystemExit 1)" by simp
  from r show "exit_code (fst (main e a s)) = 1" by simp
  from r show "\<exists>pre. new_events s (snd (main e a s))
                    = pre @ [Proc cmd shell h (Exited c), PrintError cmd c]
              \<and> (\<forall>ev \<in> set pre. \<not> failing ev)" by simp
qed


text \<open>
  The return code is not propagated: \<^verbatim>\<open>meson setup\<close> ends with status 2, the
  orchestrator with status 1.
\<close>

lemma detect_broken: "detect_platform broken_env = ''linux''"
  by (simp add: detect_platform_def broken_env_def lower_def lower_char_def)

lemma tools_resolved: "unresolved \<lparr>cwd = c, msys64 = m, onpath = tools\<rparr> linux_deps = []"
  by (simp add: unresolved_def linux_deps_def tools_def truthy_def)

lemma broken_run:
  "main broken_env (sample_args Linux) tools_world =
     (Inl (SystemExit 1),
      \<lparr>host = host tools_world,
       trace = [Print ''Current platform: linux'', Print ''Build target: linux'',
                Print ''Building for Linux...'',
                Print ''Running: meson setup _build_linux --buildtype=release --prefix=/usr/local'',
                Proc (meson_args (sample_args Linux)) False (host tools_world) (Exited 2),
                PrintError (meson_args (sample_args Linux)) 2]\<rparr>)"
  by (simp add: main_def detect_broken prog_defs build_linux_def check_dependencies_linux_def
      check_dependencies_eq tools_resolved run_command_eq tools_world_def)
     (simp add: broken_env_def sample_args_def meson_args_def build_dir_def)

theorem failing_command_exits_with_1_counterexample:
  "proc_codes (trace (snd (main broken_env (sample_args Linux) tools_world)))
     = [([''meson'', ''setup'', ''_build_linux'', ''--buildtype=release'',
          ''--prefix=/usr/local''], 2)]
   \<and> exit_code (fst (main broken_env (sample_args Linux) tools_world)) = 1"
  by (simp add: broken_run) (simp add: sample_args_def meson_args_def build_dir_def)

theorem failing_command_exits_with_1_witness:
  "exec broken_env (meson_args (sample_args Linux)) False (host tools_world)
     = (Exited 2, host tools_world) \<and> (2::int) \<noteq> 0
   \<and> run_command broken_env (meson_args (sample_args Linux)) False True tools_world =
        (Inl (SystemExit 1),
         \<lparr>host = host tools_world,
          trace = [Print ''Running: meson setup _build_linux --buildtype=release --prefix=/usr/local'',
                   Proc (meson_args (sample_args Linux)) False (host tools_world) (Exited 2),
                   PrintError (meson_args (sample_args Linux)) 2]\<rparr>)
   \<and> Proc (meson_args (sample_args Linux)) False (host tools_world) (Exited 2)
        \<in> set (new_events tools_world (snd (main broken_env (sample_args Linux) tools_world)))
   \<and> fst (main broken_env (sample_args Linux) tools_world) = Inl (SystemExit 1)
   \<and> exit_code (fst (main broken_env (sample_args Linux) tools_world)) = 1"
proof -
  have x: "exec broken_env (meson_args (sample_args Linux)) False (host tools_world)
     = (Exited 2, host tools_world)"
    by (simp add: broken_env_def)
  have m: "Proc (meson_args (sample_args Linux)) False (host tools_world) (Exited 2)
        \<in> set (new_events tools_world (snd (main broken_env (sample_args Linux) tools_world)))"
    by (simp add: broken_run new_events_def) (simp add: tools_world_def)
  have j: "join '' '' (meson_args (sample_args Linux))
             = ''meson setup _build_linux --buildtype=release --prefix=/usr/local''"
    by (simp add: sample_args_def meson_args_def build_dir_def)
  from failing_command_exits_with_1 [where e = broken_env
      and cmd = "meson_args (sample_args Linux)" and shell = False and s = tools_world
      and c = 2 and h' = "host tools_world" and h = "host tools_world"
      and a = "sample_args Linux"] x m j
  show ?thesis
    by (simp add: tools_world_def)
qed


subsection \<open>Stepping through a run\<close>

lemma bnd_ret [simp]: "bnd (ret a) f s = f a s"
  by (simp add: bnd_def ret_def)

lemma bnd_print: "bnd (print msg) f s = f () (s\<lparr>trace := trace s @ [Print msg]\<rparr>)"
  by (simp add: prog_defs)

lemma bnd_path_exists: "bnd (path_exists name) f s = f (cwd (host s) name \<noteq> None) s"
  by (simp add: prog_defs)

lemma bnd_which: "bnd (which cmd) f s = f (onpath (host s) cmd) s"
  by (simp add: prog_defs)

lemma bnd_bnd: "bnd (bnd m f) g = bnd m (\<lambda>a. bnd (f a) g)"
  by (rule ext) (simp add: bnd_def split: prod.splits sum.splits)

lemma bnd_check_dependencies:
  "bnd (check_dependencies deps) f s =
     (if unresolved (host s) deps = [] then f True s
      else f False
             (s\<lparr>trace := trace s @ [Print ''Missing dependencies:'']
                  @ map missing_line (unresolved (host s) deps)
                  @ [Print ''\<newline>Install missing dependencies and try again.'']\<rparr>))"
  by (simp add: bnd_def check_dependencies_eq)

lemma bnd_rmtree_dir:
  "cwd (host s) name = Some (Dir es) \<Longrightarrow>
   bnd (rmtree name) f s =
     f () (s\<lparr>host := (host s)\<lparr>cwd := (cwd (host s))(name := None)\<rparr>,
             trace := trace s @ [Rmtree name]\<rparr>)"
  by (simp add: bnd_def rmtree_def)

lemma bnd_rmtree_file:
  "cwd (host s) name = Some File \<Longrightarrow>
   bnd (rmtree name) f s = (Inl OSError, s\<lparr>trace := trace s @ [Rmtree name]\<rparr>)"
  by (simp add: bnd_def rmtree_def)

text \<open>
  A command followed by a continuation: the two events of the command, then events of
  the error line or of the continuation.
\<close>

lemma run_command_then:
  assumes k: "\<And>x. wf_run Q (k x)" and q: "\<And>c. Q (PrintError cmd c)"
  shows "\<exists>out tail.
           trace (snd (bnd (run_command e cmd shell True) k s)) =
             trace s @ [Print (''Running: '' @ join '' '' cmd), Proc cmd shell (host s) out] @ tail
           \<and> (\<forall>ev \<in> set tail. Q ev)"
proof -
  let ?p = "Print (''Running: '' @ join '' '' cmd)"
  obtain out h' where x: "exec e cmd shell (host s) = (out, h')"
    by (cases "exec e cmd shell (host s)")
  define s' where "s' = s\<lparr>host := h', trace := trace s @ [?p, Proc cmd shell (host s) out]\<rparr>"
  show ?thesis
  proof (cases out)
    case LaunchError
    with x have "bnd (run_command e cmd shell True) k s = (Inl OSError, s')"
      by (simp add: bnd_def run_command_eq s'_def)
    then show ?thesis
      by (intro exI [of _ out] exI [of _ "[]"]) (simp add: s'_def)
  next
    case (Exited c)
    show ?thesis
    proof (cases "c = 0")
      case False
      with x Exited have "bnd (run_command e cmd shell True) k s =
          (Inl (SystemExit 1), s'\<lparr>trace := trace s' @ [PrintError cmd c]\<rparr>)"
        by (simp add: bnd_def run_command_eq s'_def)
      with q show ?thesis
        by (intro exI [of _ out] exI [of _ "[PrintError cmd c]"]) (simp add: s'_def)
    next
      case True
      with x Exited have b: "bnd (run_command e cmd shell True) k s = k 0 s'"
        by (simp add: bnd_def run_command_eq s'_def)
      from new_events_wf(1,2) [OF k [of 0], of s']
      have "trace (snd (k 0 s')) = trace s' @ new_events s' (snd (k 0 s'))"
        and "\<forall>ev \<in> set (new_events s' (snd (k 0 s'))). Q ev"
        by simp_all
      with b show ?thesis
        by (intro exI [of _ out] exI [of _ "new_events s' (snd (k 0 s'))"]) (simp add: s'_def)
    qed
  qed
qed

subsection \<open>Cleaning comes before configuring\<close>

text \<open>
  Claim C8. In a run of the native pipeline with the clean flag set and the build
  directory present at entry, every configure process (\<^verbatim>\<open>meson setup\<close>) is the pipeline's
  own configure command and was started only after the build directory had been removed:
  the host that the process saw is the host at entry without the build directory, and
  the removal is part of the run.
\<close>

theorem clean_before_configure:
  assumes c: "clean a" and ex: "cwd (host s) build_dir \<noteq> None"
  shows "\<forall>cmd shell h out.
           Proc cmd shell h out \<in> set (new_events s (snd (build_linux e a s)))
           \<and> is_configure cmd \<longrightarrow>
             cmd = meson_args a
             \<and> h = (host s)\<lparr>cwd := (cwd (host s))(build_dir := None)\<rparr>
             \<and> cwd h build_dir = None
             \<and> Rmtree build_dir \<in> set (new_events s (snd (build_linux e a s)))"
proof (cases "unresolved (host s) linux_deps = []")
  case False
  then have "new_events s (snd (build_linux e a s)) =
      [Print ''Building for Linux...'', Print ''Missing dependencies:'']
      @ map missing_line (unresolved (host s) linux_deps)
      @ [Print ''\<newline>Install missing dependencies and try again.'']"
    by (simp add: build_linux_def check_dependencies_linux_def bnd_print bnd_check_dependencies
        ret_def new_events_def)
  then show ?thesis
    by (auto simp: missing_line_def)
next
  case True
  from ex obtain n where n: "cwd (host s) build_dir = Some n" by blast
  show ?thesis
  proof (cases n)
    case File
    with True c n have "new_events s (snd (build_linux e a s)) =
        [Print ''Building for Linux...'', Print ''Cleaning previous build...'', Rmtree build_dir]"
      by (simp add: build_linux_def check_dependencies_linux_def bnd_print bnd_check_dependencies
          bnd_path_exists bnd_bnd bnd_rmtree_file new_events_def)
    then show ?thesis by simp
  next
    case (Dir es)
    let ?h = "(host s)\<lparr>cwd := (cwd (host s))(build_dir := None)\<rparr>"
    define s2 where "s2 = s\<lparr>host := ?h,
        trace := trace s @ [Print ''Building for Linux...'', Print ''Cleaning previous build...'',
                            Rmtree build_dir]\<rparr>"
    define k where "k = (\<lambda>_ :: int.
        bnd (run_command e [''meson'', ''compile'', ''-C'', build_dir] False True) (\<lambda>_.
        bnd (if install a
             then bnd (run_command e [''sudo'', ''meson'', ''install'', ''-C'', build_dir]
                         False True) (\<lambda>_. ret ())
             else ret ()) (\<lambda>_.
        bnd (print ''Linux build completed successfully!'') (\<lambda>_.
        ret True))))"
    let ?Q = "\<lambda>ev. \<forall>cmd shell h out. ev = Proc cmd shell h out \<longrightarrow> \<not> is_configure cmd"
    have eq: "build_linux e a s = bnd (run_command e (meson_args a) False True) k s2"
      using True c n Dir
      by (simp add: build_linux_def check_dependencies_linux_def bnd_print bnd_check_dependencies
          bnd_path_exists bnd_bnd bnd_rmtree_dir s2_def k_def)
    have k: "wf_run ?Q (k x)" for x
      unfolding k_def by (intro wf_steps | simp)+
    from run_command_then [of ?Q k "meson_args a" e False s2, OF k]
    obtain out tail where t: "trace (snd (build_linux e a s)) =
        trace s2 @ [Print (''Running: '' @ join '' '' (meson_args a)),
                    Proc (meson_args a) False (host s2) out] @ tail"
      and tail: "\<forall>ev \<in> set tail. ?Q ev"
      unfolding eq by auto
    from t have evs: "new_events s (snd (build_linux e a s)) =
        [Print ''Building for Linux...'', Print ''Cleaning previous build...'', Rmtree build_dir,
         Print (''Running: '' @ join '' '' (meson_args a)),
         Proc (meson_args a) False ?h out] @ tail"
      by (simp add: new_events_def s2_def)
    show ?thesis
      unfolding evs using tail by auto
  qed
qed


text \<open>
  A run on a host with a build directory that holds a sentinel file: the directory is
  removed, \<^verbatim>\<open>meson setup\<close> creates it again, and the sentinel is gone.
\<close>

lemma meson_run:
  "build_linux meson_env (sample_args t) \<lparr>host = built_host, trace = tr\<rparr> =
     (Inr True,
      \<lparr>host = built_host\<lparr>cwd := (cwd built_host)(build_dir \<mapsto> Dir [(''build.ninja'', File)])\<rparr>,
       trace = tr @
         [Print ''Building for Linux...'', Print ''Cleaning previous build...'',
          Rmtree build_dir,
          Print ''Running: meson setup _build_linux --buildtype=release --prefix=/usr/local'',
          Proc (meson_args (sample_args t)) False
            (built_host\<lparr>cwd := (cwd built_host)(build_dir := None)\<rparr>) (Exited 0),
          Print ''Running: meson compile -C _build_linux'',
          Proc [''meson'', ''compile'', ''-C'', build_dir] False
            (built_host\<lparr>cwd := (cwd built_host)(build_dir \<mapsto> Dir [(''build.ninja'', File)])\<rparr>)
            (Exited 0),
          Print ''Linux build completed successfully!'']\<rparr>)"
proof -
  let ?s = "\<lparr>host = built_host, trace = tr\<rparr>"
  have d: "unresolved (host ?s) linux_deps = []"
    by (simp add: built_host_def tools_resolved)
  have a: "clean (sample_args t)" "\<not> install (sample_args t)"
    by (simp_all add: sample_args_def)
  have n: "cwd (host ?s) build_dir = Some (Dir [(''sentinel'', File)])"
    by (simp add: built_host_def)
  have j: "join '' '' (meson_args (sample_args t)) =
             ''meson setup _build_linux --buildtype=release --prefix=/usr/local''"
    by (simp add: sample_args_def meson_args_def build_dir_def)
  have x: "exec meson_env cmd shell h =
             (if is_configure cmd
              then (Exited 0, h\<lparr>cwd := (cwd h)(build_dir \<mapsto> Dir [(''build.ninja'', File)])\<rparr>)
              else (Exited 0, h))" for cmd shell h
    by (simp add: meson_env_def)
  show ?thesis
    using d a n
    by (simp add: build_linux_def check_dependencies_linux_def bnd_print bnd_check_dependencies
        bnd_path_exists bnd_bnd bnd_rmtree_dir bnd_def [of "run_command e c sh ch" for e c sh ch]
        run_command_eq x j ret_def)
       (simp add: build_dir_def)
qed

theorem clean_before_configure_witness:
  "clean (sample_args Linux) \<and> cwd (host built_world) build_dir \<noteq> None
   \<and> Proc (meson_args (sample_args Linux)) False
        (built_host\<lparr>cwd := (cwd built_host)(build_dir := None)\<rparr>) (Exited 0)
        \<in> set (new_events built_world (snd (build_linux meson_env (sample_args Linux) built_world)))
   \<and> is_configure (meson_args (sample_args Linux))
   \<and> cwd (built_host\<lparr>cwd := (cwd built_host)(build_dir := None)\<rparr>) build_dir = None
   \<and> Rmtree build_dir
        \<in> set (new_events built_world (snd (build_linux meson_env (sample_args Linux) built_world)))
   \<and> cwd (host (snd (build_linux meson_env (sample_args Linux) built_world))) build_dir
        = Some (Dir [(''build.ninja'', File)])"
proof -
  have c: "clean (sample_args Linux)"
    by (simp add: sample_args_def)
  have ex: "cwd (host built_world) build_dir \<noteq> None"
    by (simp add: built_world_def built_host_def)
  have m: "Proc (meson_args (sample_args Linux)) False
        (built_host\<lparr>cwd := (cwd built_host)(build_dir := None)\<rparr>) (Exited 0)
        \<in> set (new_events built_world (snd (build_linux meson_env (sample_args Linux) built_world)))"
    by (simp add: built_world_def meson_run new_events_def)
  have after: "cwd (host (snd (build_linux meson_env (sample_args Linux) built_world))) build_dir
        = Some (Dir [(''build.ninja'', File)])"
    by (simp add: built_world_def meson_run)
  from clean_before_configure [OF c ex, of meson_env, rule_format,
      OF conjI [OF m is_configure_meson_args]]
  have "cwd (built_host\<lparr>cwd := (cwd built_host)(build_dir := None)\<rparr>) build_dir = None
    \<and> Rmtree build_dir
        \<in> set (new_events built_world (snd (build_linux meson_env (sample_args Linux) built_world)))"
    by simp
  with m c ex after show ?thesis
    by simp
qed

subsection \<open>What \<^verbatim>\<open>main\<close> dispatches to\<close>

lemma bnd_raise: "bnd (raise x) f s = (Inl x, s)"
  by (simp add: bnd_def raise_def)

lemma banner_False:
  "banner False s =
     (Inl (SystemExit 1), s\<lparr>trace := trace s @ [Print ''\<newline>Build process failed!'']\<rparr>)"
  by (simp add: banner_def bnd_print raise_def)

lemma banner_True:
  "banner True s =
     (Inr (), s\<lparr>trace := trace s @ [Print ''\<newline>Build process completed successfully!'']\<rparr>)"
  by (simp add: banner_def prog_defs)

lemma main_linux:
  "target a = Linux \<Longrightarrow> main e a s = bnd (build_linux e a) banner (header e a s)"
  by (simp add: main_def Let_def header_def bnd_print bnd_bnd banner_def
      bnd_def [of "build_linux e a"] split: prod.splits sum.splits)

lemma main_package_windows:
  "target a = PackageWindows \<Longrightarrow>
   main e a s = bnd (package_windows e a) banner (header e a s)"
  by (simp add: main_def Let_def header_def bnd_print bnd_bnd banner_def
      bnd_def [of "package_windows e a"] split: prod.splits sum.splits)

lemma main_all_windows:
  "target a = All \<Longrightarrow> detect_platform e = ''windows'' \<Longrightarrow>
   main e a s =
     bnd (build_linux e a) (\<lambda>ok.
       bnd (build_windows e a) (\<lambda>b. banner (ok \<and> b))) (header e a s)"
  by (simp add: main_def Let_def header_def bnd_print bnd_bnd banner_def
      bnd_def [of "build_linux e a"] bnd_def [of "build_windows e a"]
      split: prod.splits sum.splits)

lemma main_all_not_windows:
  "target a = All \<Longrightarrow> detect_platform e \<noteq> ''windows'' \<Longrightarrow>
   main e a s =
     bnd (build_linux e a) (\<lambda>ok.
       bnd (print ''Windows builds can only be created on Windows with MSYS2'') (\<lambda>_.
       banner False)) (header e a s)"
  by (simp add: main_def Let_def header_def bnd_print bnd_bnd banner_def
      bnd_def [of "build_linux e a"] split: prod.splits sum.splits)


lemma wf_build_linux_no_flatpak: "wf_run (\<lambda>ev. \<not> flatpak_event ev) (build_linux e a)"
  unfolding build_linux_def check_dependencies_linux_def
  by (intro wf_steps | simp add: missing_line_def meson_args_def build_dir_def flatpak_dir_def
        split: prod.splits)+

lemma wf_main_all_linux:
  assumes "target a = All" and "detect_platform e = ''linux''"
  shows "wf_run (\<lambda>ev. \<not> flatpak_event ev) (main e a)"
  unfolding main_def Let_def
  by (intro wf_steps wf_build_linux_no_flatpak | simp add: assms)+

text \<open>
  Claim C2, as the code has it. A run with target \<^verbatim>\<open>all\<close> on a host whose detected platform
  is \<^verbatim>\<open>linux\<close> runs the native pipeline after the header; when the pipeline returns
  (with either result) the run prints the platform-mismatch message of the windows
  sub-target and the failure banner and exits with status 1, and when the pipeline raises
  the run ends there. The exit status is 1 in every case, and no event of the Flatpak
  sub-target occurs: the Flatpak block of \<^verbatim>\<open>main\<close> tests for the target \<^verbatim>\<open>flatpak\<close> alone.
\<close>

theorem all_on_linux:
  assumes t: "target a = All" and p: "detect_platform e = ''linux''"
  shows "(\<forall>ok s1. build_linux e a (header e a s) = (Inr ok, s1) \<longrightarrow>
            main e a s =
              (Inl (SystemExit 1),
               s1\<lparr>trace := trace s1 @
                     [Print ''Windows builds can only be created on Windows with MSYS2'',
                      Print ''\<newline>Build process failed!'']\<rparr>))
         \<and> (\<forall>x s1. build_linux e a (header e a s) = (Inl x, s1) \<longrightarrow> main e a s = (Inl x, s1))
         \<and> exit_code (fst (main e a s)) = 1
         \<and> (\<forall>ev \<in> set (new_events s (snd (main e a s))). \<not> flatpak_event ev)"
proof -
  from p have w: "detect_platform e \<noteq> ''windows''" by simp
  note eq = main_all_not_windows [OF t w, of s]
  have ok: "main e a s =
              (Inl (SystemExit 1),
               s1\<lparr>trace := trace s1 @
                     [Print ''Windows builds can only be created on Windows with MSYS2'',
                      Print ''\<newline>Build process failed!'']\<rparr>)"
    if "build_linux e a (header e a s) = (Inr ok, s1)" for ok s1
    using that by (simp add: eq bnd_def [of "build_linux e a"] bnd_print banner_False)
  have bad: "main e a s = (Inl x, s1)"
    if "build_linux e a (header e a s) = (Inl x, s1)" for x s1
    using that by (simp add: eq bnd_def [of "build_linux e a"])
  have code: "exit_code (fst (main e a s)) = 1"
  proof (cases "build_linux e a (header e a s)")
    case (Pair r s1)
    show ?thesis
    proof (cases r)
      case (Inr b)
      with Pair ok show ?thesis by simp
    next
      case (Inl x)
      from new_events_wf(4) [OF wf_build_linux, of e a "header e a s" x] Pair Inl
      have "x = SystemExit 1 \<or> x = OSError" by simp
      with Pair Inl bad show ?thesis by auto
    qed
  qed
  from new_events_wf(2) [OF wf_main_all_linux [OF t p], of s]
  have "\<forall>ev \<in> set (new_events s (snd (main e a s))). \<not> flatpak_event ev" .
  with ok bad code show ?thesis by blast
qed

text \<open>
  A run with target \<^verbatim>\<open>all\<close> on Linux in which the native pipeline succeeds: nothing of the
  Flatpak sub-target happens.
\<close>

lemma meson_run_all:
  "main meson_env (sample_args All) built_world =
     (Inl (SystemExit 1),
      \<lparr>host = built_host\<lparr>cwd := (cwd built_host)(build_dir \<mapsto> Dir [(''build.ninja'', File)])\<rparr>,
       trace =
         [Print ''Current platform: linux'', Print ''Build target: all'',
          Print ''Building for Linux...'', Print ''Cleaning previous build...'',
          Rmtree build_dir,
          Print ''Running: meson setup _build_linux --buildtype=release --prefix=/usr/local'',
          Proc (meson_args (sample_args All)) False
            (built_host\<lparr>cwd := (cwd built_host)(build_dir := None)\<rparr>) (Exited 0),
          Print ''Running: meson compile -C _build_linux'',
          Proc [''meson'', ''compile'', ''-C'', build_dir] False
            (built_host\<lparr>cwd := (cwd built_host)(build_dir \<mapsto> Dir [(''build.ninja'', File)])\<rparr>)
            (Exited 0),
          Print ''Linux build completed successfully!'',
          Print ''Windows builds can only be created on Windows with MSYS2'',
          Print ''\<newline>Build process failed!'']\<rparr>)"
proof -
  have t: "target (sample_args All) = All"
    by (simp add: sample_args_def)
  have p: "detect_platform meson_env = ''linux''"
    by (simp add: detect_platform_def meson_env_def lower_def lower_char_def)
  then have w: "detect_platform meson_env \<noteq> ''windows''" by simp
  show ?thesis
    by (simp add: main_all_not_windows [OF t w] header_def built_world_def p t
        bnd_def [of "build_linux e a" for e a] meson_run bnd_print banner_False)
qed

theorem all_on_linux_counterexample:
  "filter flatpak_event (trace (snd (main meson_env (sample_args All) built_world))) = []
   \<and> fst (build_linux meson_env (sample_args All) (header meson_env (sample_args All) built_world))
       = Inr True
   \<and> fst (main meson_env (sample_args All) built_world) = Inl (SystemExit 1)"
  by (simp add: meson_run_all) (simp add: header_def built_world_def meson_run meson_args_def
      build_dir_def flatpak_dir_def)

theorem all_on_linux_witness:
  "target (sample_args All) = All \<and> detect_platform meson_env = ''linux''
   \<and> exit_code (fst (main meson_env (sample_args All) built_world)) = 1
   \<and> Print ''Building for Linux...''
        \<in> set (new_events built_world (snd (main meson_env (sample_args All) built_world)))
   \<and> Print ''Windows builds can only be created on Windows with MSYS2''
        \<in> set (new_events built_world (snd (main meson_env (sample_args All) built_world)))
   \<and> filter flatpak_event
        (new_events built_world (snd (main meson_env (sample_args All) built_world))) = []"
proof -
  have t: "target (sample_args All) = All"
    by (simp add: sample_args_def)
  have p: "detect_platform meson_env = ''linux''"
    by (simp add: detect_platform_def meson_env_def lower_def lower_char_def)
  have evs: "Print ''Building for Linux...''
        \<in> set (new_events built_world (snd (main meson_env (sample_args All) built_world)))"
    "Print ''Windows builds can only be created on Windows with MSYS2''
        \<in> set (new_events built_world (snd (main meson_env (sample_args All) built_world)))"
    by (simp_all add: meson_run_all new_events_def) (simp_all add: built_world_def)
  from all_on_linux [OF t p, of built_world] t p evs
  show ?thesis by (simp add: filter_empty_conv)
qed


subsection \<open>The platform gates neither the native pipeline nor the packager\<close>

lemma wf_banner: "wf_run (\<lambda>ev. True) (banner b)"
  unfolding banner_def by (intro wf_steps | simp)+

lemma trace_bnd_extends:
  assumes "\<And>x. wf_run Q (k x)"
  shows "\<exists>post. trace (snd (bnd m k s)) = trace (snd (m s)) @ post"
proof (cases "m s")
  case (Pair r s1)
  show ?thesis
  proof (cases r)
    case (Inl x)
    with Pair show ?thesis by (simp add: bnd_def)
  next
    case (Inr b)
    from new_events_wf(1) [OF assms [of b], of s1] Pair Inr show ?thesis
      by (intro exI [of _ "new_events s1 (snd (k b s1))"]) (simp add: bnd_def)
  qed
qed

lemma first_event:
  assumes "m = bnd (print msg) k" and "\<And>x. wf_run Q (k x)"
  shows "\<exists>evs. trace (snd (m s)) = trace s @ Print msg # evs"
proof -
  let ?s = "s\<lparr>trace := trace s @ [Print msg]\<rparr>"
  from assms(1) have "m s = k () ?s"
    by (simp add: bnd_print)
  with new_events_wf(1) [OF assms(2) [of "()"], of ?s] show ?thesis
    by (intro exI [of _ "new_events ?s (snd (k () ?s))"]) simp
qed

lemma detect_platform_cases:
  "detect_platform e \<in> {''windows'', ''linux'', ''freebsd'', ''unknown''}"
  by (simp add: detect_platform_def Let_def)

text \<open>
  Claim C9. Whatever platform is detected (it is one of \<^verbatim>\<open>windows\<close>, \<^verbatim>\<open>linux\<close>, \<^verbatim>\<open>freebsd\<close>
  and \<^verbatim>\<open>unknown\<close>), a run with target \<^verbatim>\<open>linux\<close> is the header, the native pipeline and the
  banner for the pipeline's result; a run with target \<^verbatim>\<open>package-windows\<close> is the header,
  the distribution packager and the banner for its result; and the trace of a run with
  target \<^verbatim>\<open>all\<close> starts with the trace of the native pipeline run after the header. Each of
  the two pipelines prints its first line from whatever state it is started in.
\<close>

theorem native_and_packager_not_gated:
  "(target a = Linux \<longrightarrow> main e a s = bnd (build_linux e a) banner (header e a s))
   \<and> (target a = PackageWindows \<longrightarrow>
        main e a s = bnd (package_windows e a) banner (header e a s))
   \<and> (target a = All \<longrightarrow>
        (\<exists>post. trace (snd (main e a s)) = trace (snd (build_linux e a (header e a s))) @ post))
   \<and> (\<exists>evs. trace (snd (build_linux e a s0)) = trace s0 @ Print ''Building for Linux...'' # evs)
   \<and> (\<exists>evs. trace (snd (package_windows e a s0))
               = trace s0 @ Print ''Packaging Windows distribution...'' # evs)
   \<and> detect_platform e \<in> {''windows'', ''linux'', ''freebsd'', ''unknown''}"
proof -
  have all: "\<exists>post. trace (snd (main e a s)) = trace (snd (build_linux e a (header e a s))) @ post"
    if t: "target a = All"
  proof (cases "detect_platform e = ''windows''")
    case True
    have "wf_run (\<lambda>ev. True) (bnd (build_windows e a) (\<lambda>b. banner (ok \<and> b)))" for ok
      by (intro wf_bnd wf_build_windows wf_banner)
    then show ?thesis
      unfolding main_all_windows [OF t True] by (rule trace_bnd_extends)
  next
    case False
    have "wf_run (\<lambda>ev. True)
           (bnd (print ''Windows builds can only be created on Windows with MSYS2'')
              (\<lambda>_. banner False))" 
      by (intro wf_bnd wf_print wf_banner) simp
    then show ?thesis
      unfolding main_all_not_windows [OF t False] by (intro trace_bnd_extends)
  qed
  have native: "\<exists>evs. trace (snd (build_linux e a s0))
                  = trace s0 @ Print ''Building for Linux...'' # evs"
    by (rule first_event [OF build_linux_def, where Q = "\<lambda>ev. True"])
       ((intro wf_steps | simp add: check_dependencies_linux_def)+)
  have packager: "\<exists>evs. trace (snd (package_windows e a s0))
                  = trace s0 @ Print ''Packaging Windows distribution...'' # evs"
    by (rule first_event [OF package_windows_def, where Q = "\<lambda>ev. True"])
       ((intro wf_steps | simp)+)
  from all native packager main_linux [of a e s] main_package_windows [of a e s]
    detect_platform_cases [of e]
  show ?thesis by blast
qed

lemma freebsd_run:
  "build_linux freebsd_env (sample_args t) \<lparr>host = host tools_world, trace = tr\<rparr> =
     (Inr True,
      \<lparr>host = host tools_world,
       trace = tr @
         [Print ''Building for Linux...'',
          Print ''Running: meson setup _build_linux --buildtype=release --prefix=/usr/local'',
          Proc (meson_args (sample_args t)) False (host tools_world) (Exited 0),
          Print ''Running: meson compile -C _build_linux'',
          Proc [''meson'', ''compile'', ''-C'', build_dir] False (host tools_world) (Exited 0),
          Print ''Linux build completed successfully!'']\<rparr>)"
proof -
  let ?s = "\<lparr>host = host tools_world, trace = tr\<rparr>"
  have d: "unresolved (host ?s) linux_deps = []"
    by (simp add: tools_world_def tools_resolved)
  have a: "clean (sample_args t)" "\<not> install (sample_args t)"
    by (simp_all add: sample_args_def)
  have n: "cwd (host ?s) build_dir = None"
    by (simp add: tools_world_def)
  have j: "join '' '' (meson_args (sample_args t)) =
             ''meson setup _build_linux --buildtype=release --prefix=/usr/local''"
    by (simp add: sample_args_def meson_args_def build_dir_def)
  have x: "exec freebsd_env cmd shell h = (Exited 0, h)" for cmd shell h
    by (simp add: freebsd_env_def)
  show ?thesis
    using d a n
    by (simp add: build_linux_def check_dependencies_linux_def bnd_print bnd_check_dependencies
        bnd_path_exists bnd_def [of "run_command e c sh ch" for e c sh ch]
        run_command_eq x j ret_def)
       (simp add: build_dir_def)
qed

theorem native_and_packager_not_gated_witness:
  "target (sample_args Linux) = Linux \<and> detect_platform freebsd_env = ''freebsd''
   \<and> main freebsd_env (sample_args Linux) tools_world
       = bnd (build_linux freebsd_env (sample_args Linux)) banner
           (header freebsd_env (sample_args Linux) tools_world)
   \<and> fst (main freebsd_env (sample_args Linux) tools_world) = Inr ()
   \<and> target (sample_args PackageWindows) = PackageWindows
   \<and> detect_platform darwin_env = ''unknown''
   \<and> main darwin_env (sample_args PackageWindows) bare_world
       = bnd (package_windows darwin_env (sample_args PackageWindows)) banner
           (header darwin_env (sample_args PackageWindows) bare_world)
   \<and> Print ''Packaging Windows distribution...''
       \<in> set (trace (snd (main darwin_env (sample_args PackageWindows) bare_world)))"
proof -
  have t1: "target (sample_args Linux) = Linux"
    and t2: "target (sample_args PackageWindows) = PackageWindows"
    by (simp_all add: sample_args_def)
  have p1: "detect_platform freebsd_env = ''freebsd''"
    by (simp add: detect_platform_def freebsd_env_def lower_def lower_char_def)
  have p2: "detect_platform darwin_env = ''unknown''"
    by (simp add: detect_platform_def darwin_env_def lower_def lower_char_def)
  note n1 = native_and_packager_not_gated [of "sample_args Linux" freebsd_env tools_world]
  note n2 = native_and_packager_not_gated [of "sample_args PackageWindows" darwin_env bare_world]
  from n1 t1 have m1: "main freebsd_env (sample_args Linux) tools_world
       = bnd (build_linux freebsd_env (sample_args Linux)) banner
           (header freebsd_env (sample_args Linux) tools_world)"
    by blast
  from n2 t2 have m2: "main darwin_env (sample_args PackageWindows) bare_world
       = bnd (package_windows darwin_env (sample_args PackageWindows)) banner
           (header darwin_env (sample_args PackageWindows) bare_world)"
    by blast
  have hdr: "header freebsd_env (sample_args Linux) tools_world =
      \<lparr>host = host tools_world,
       trace = [Print ''Current platform: freebsd'', Print ''Build target: linux'']\<rparr>"
    by (simp add: header_def p1 t1 tools_world_def)
  have r1: "fst (main freebsd_env (sample_args Linux) tools_world) = Inr ()"
    by (simp add: m1 hdr bnd_def [of "build_linux e a" for e a] freebsd_run banner_True)
  have h: "cwd (host (header darwin_env (sample_args PackageWindows) bare_world)) portable_dir
             = None"
    by (simp add: header_def bare_world_def bare_host_def)
  have r2: "Print ''Packaging Windows distribution...''
       \<in> set (trace (snd (main darwin_env (sample_args PackageWindows) bare_world)))"
    by (simp add: m2 bnd_def [of "package_windows e a" for e a] banner_False
        package_windows_eq_missing [OF h])
  from t1 t2 p1 p2 m1 m2 r1 r2 show ?thesis by simp
qed

subsection \<open>The distribution packager\<close>

lemma zip_files_eq:
  "zip_files root files s =
     (Inr (), s\<lparr>trace := trace s @ map (\<lambda>file. ZipWrite (root @ [file]) (join ''/'' (root @ [file]))) files\<rparr>)"
  by (induction files arbitrary: s) (simp_all add: prog_defs Let_def)

lemma zip_walk_eq:
  "zip_walk triples s =
     (Inr (), s\<lparr>trace := trace s @ map (\<lambda>p. ZipWrite p (join ''/'' p)) (walk_files triples)\<rparr>)"
proof (induction triples arbitrary: s)
  case Nil
  show ?case by (simp add: ret_def walk_files_def)
next
  case (Cons x triples)
  obtain root dirs files where x: "x = (root, dirs, files)" by (cases x)
  show ?case
    by (simp add: x bnd_def zip_files_eq Cons walk_files_def comp_def)
qed

lemma names_differ [simp]:
  "dist_dir \<noteq> portable_dir" "portable_dir \<noteq> dist_dir"
  "dist_dir \<noteq> iss_file" "iss_file \<noteq> dist_dir"
  by (simp_all add: dist_dir_def portable_dir_def iss_file_def)

lemma archive_steps:
  assumes ok: "archive_ok (host s)"
  shows "bnd (mkdir_exist_ok dist_dir) (\<lambda>_.
         bnd (print ''Creating portable ZIP archive...'') (\<lambda>_.
         bnd (zip_open dist_dir zip_name) k)) s =
         k () (s\<lparr>host := archived (host s),
                 trace := trace s @ [Mkdir dist_dir, Print ''Creating portable ZIP archive...'',
                                     ZipOpen [dist_dir, zip_name]]\<rparr>)"
proof (cases "cwd (host s) dist_dir")
  case None
  then show ?thesis
    by (simp add: bnd_def mkdir_exist_ok_def print_def emit_def zip_open_def archived_def
        dist_entries_def)
next
  case (Some t)
  with ok obtain es where t: "t = Dir es"
    by (cases t) (simp_all add: archive_ok_def)
  from ok Some t have "case map_of es zip_name of Some t \<Rightarrow> \<not> is_dir t | None \<Rightarrow> True"
    by (simp add: archive_ok_def dist_entries_def)
  then have z: "map_of es zip_name = None \<or> map_of es zip_name = Some File"
    by (cases "map_of es zip_name") (auto elim: is_dir.elims)
  from z Some t show ?thesis
    by (auto simp: bnd_def mkdir_exist_ok_def print_def emit_def zip_open_def archived_def
        dist_entries_def)
qed

text \<open>The packager up to the point where it looks for the installer generator.\<close>

lemma package_windows_archive:
  assumes p: "cwd (host s) portable_dir = Some t" and ok: "archive_ok (host s)"
  shows "package_windows e a s =
     bnd (if truthy (onpath (host s) ''iscc'') then
            bnd (print ''Creating Windows installer...'') (\<lambda>_.
              if cwd (host s) iss_file \<noteq> None then
                bnd (run_command e (iscc_cmd (host s)) False True) (\<lambda>_. ret ())
              else print ''Installer script not found, skipping installer creation'')
          else print ''Inno Setup not found, skipping installer creation'') (\<lambda>_.
     bnd (print ''Windows packaging completed!'') (\<lambda>_.
     ret True))
       (s\<lparr>host := archived (host s), trace := trace s @ archive_events t\<rparr>)"
proof -
  let ?s1 = "s\<lparr>trace := trace s @ [Print ''Packaging Windows distribution...'']\<rparr>"
  from ok have ok1: "archive_ok (host ?s1)" by simp
  show ?thesis
    using p
    by (simp add: package_windows_def bnd_print [of "''Packaging Windows distribution...''"]
        bnd_path_exists archive_steps [OF ok1])
       (simp add: bnd_def [of "os_walk n" for n] os_walk_def archived_def
         bnd_def [of "zip_walk ts" for ts] zip_walk_eq bnd_which bnd_path_exists
         archive_events_def iscc_cmd_def bnd_bnd bnd_print)
qed




















subsection \<open>The installer generator\<close>

lemma no_proc_archive_events [simp]: "Proc cmd shell h out \<notin> set (archive_events t)"
  by (auto simp: archive_events_def)

lemma zip_open_archive_events [simp]: "ZipOpen [dist_dir, zip_name] \<in> set (archive_events t)"
  by (simp add: archive_events_def)

text \<open>The three ways through the last part of the packager.\<close>

lemma package_windows_no_tool:
  assumes "cwd (host s) portable_dir = Some t" and "archive_ok (host s)"
    and "\<not> truthy (onpath (host s) ''iscc'')"
  shows "package_windows e a s =
           (Inr True,
            s\<lparr>host := archived (host s),
              trace := trace s @ archive_events t @
                [Print ''Inno Setup not found, skipping installer creation'',
                 Print ''Windows packaging completed!'']\<rparr>)"
  using assms(3) by (simp add: package_windows_archive [OF assms(1,2)] bnd_print ret_def)

lemma package_windows_no_script:
  assumes "cwd (host s) portable_dir = Some t" and "archive_ok (host s)"
    and "truthy (onpath (host s) ''iscc'')" and "cwd (host s) iss_file = None"
  shows "package_windows e a s =
           (Inr True,
            s\<lparr>host := archived (host s),
              trace := trace s @ archive_events t @
                [Print ''Creating Windows installer...'',
                 Print ''Installer script not found, skipping installer creation'',
                 Print ''Windows packaging completed!'']\<rparr>)"
  using assms(3,4)
  by (simp add: package_windows_archive [OF assms(1,2)] bnd_bnd bnd_print ret_def)

lemma package_windows_installer:
  assumes "cwd (host s) portable_dir = Some t" and "archive_ok (host s)"
    and "truthy (onpath (host s) ''iscc'')" and "cwd (host s) iss_file \<noteq> None"
    and "exec e (iscc_cmd (host s)) False (archived (host s)) = (out, h')"
  shows "package_windows e a s =
           (case out of
              Exited c \<Rightarrow> if c = 0 then Inr True else Inl (SystemExit 1)
            | LaunchError \<Rightarrow> Inl OSError,
            \<lparr>host = h',
             trace = trace s @ archive_events t @
                [Print ''Creating Windows installer...'',
                 Print (''Running: '' @ join '' '' (iscc_cmd (host s))),
                 Proc (iscc_cmd (host s)) False (archived (host s)) out]
                @ (case out of
                     Exited c \<Rightarrow> if c = 0 then [Print ''Windows packaging completed!'']
                                 else [PrintError (iscc_cmd (host s)) c]
                   | LaunchError \<Rightarrow> [])\<rparr>)"
  using assms(3,4,5)
  by (simp add: package_windows_archive [OF assms(1,2)] bnd_bnd bnd_print
      bnd_def [of "run_command e c sh ch" for e c sh ch] run_command_eq ret_def
      split: outcome.splits)

text \<open>
  Claim C7, as the code has it. When the portable-build directory exists and the archive
  can be opened, the packager writes the archive and then starts at most one process,
  the installer generator on the installer definition, and it starts it if and only if
  \<^verbatim>\<open>iscc\<close> is resolved on the search path and the installer definition exists. If the
  tool is missing, or the tool is there and the definition is missing, the packager
  prints the matching skip message and returns true. If the generator is started, the
  packager returns true when the generator ends with status 0; when it ends with another
  status the run is aborted with \<^verbatim>\<open>SystemExit(1)\<close>, and when it cannot be started the
  \<^verbatim>\<open>OSError\<close> leaves the packager.
\<close>

theorem installer_generation:
  assumes p: "cwd (host s) portable_dir \<noteq> None" and ok: "archive_ok (host s)"
  shows "((\<exists>cmd shell h out.
             Proc cmd shell h out \<in> set (new_events s (snd (package_windows e a s))))
           \<longleftrightarrow> truthy (onpath (host s) ''iscc'') \<and> cwd (host s) iss_file \<noteq> None)
         \<and> (\<forall>cmd shell h out.
               Proc cmd shell h out \<in> set (new_events s (snd (package_windows e a s))) \<longrightarrow>
               cmd = iscc_cmd (host s) \<and> h = archived (host s)
               \<and> out = fst (exec e (iscc_cmd (host s)) False (archived (host s))))
         \<and> (\<not> truthy (onpath (host s) ''iscc'') \<longrightarrow>
               fst (package_windows e a s) = Inr True
               \<and> Print ''Inno Setup not found, skipping installer creation''
                   \<in> set (new_events s (snd (package_windows e a s))))
         \<and> (truthy (onpath (host s) ''iscc'') \<and> cwd (host s) iss_file = None \<longrightarrow>
               fst (package_windows e a s) = Inr True
               \<and> Print ''Installer script not found, skipping installer creation''
                   \<in> set (new_events s (snd (package_windows e a s))))
         \<and> (truthy (onpath (host s) ''iscc'') \<and> cwd (host s) iss_file \<noteq> None \<longrightarrow>
               fst (package_windows e a s) =
                 (case fst (exec e (iscc_cmd (host s)) False (archived (host s))) of
                    Exited c \<Rightarrow> if c = 0 then Inr True else Inl (SystemExit 1)
                  | LaunchError \<Rightarrow> Inl OSError))
         \<and> ZipOpen [dist_dir, zip_name] \<in> set (new_events s (snd (package_windows e a s)))"
    (is "?P1 \<and> ?P2 \<and> ?P3 \<and> ?P4 \<and> ?P5 \<and> ?P6")
proof -
  let ?evs = "new_events s (snd (package_windows e a s))"
  from p obtain t where t: "cwd (host s) portable_dir = Some t" by blast
  show ?thesis
  proof (cases "truthy (onpath (host s) ''iscc'')")
    case False
    note r = package_windows_no_tool [OF t ok False, of e a]
    have evs: "?evs = archive_events t @
                [Print ''Inno Setup not found, skipping installer creation'',
                 Print ''Windows packaging completed!'']"
      by (simp add: r new_events_def)
    have res: "fst (package_windows e a s) = Inr True"
      by (simp add: r)
    have none: "Proc cmd shell h out \<notin> set ?evs" for cmd shell h out
      by (simp add: evs)
    from none False have ?P1 by blast
    moreover from none have ?P2 by blast
    moreover from res have ?P3 by (simp add: evs)
    moreover from False have ?P4 by blast
    moreover from False have ?P5 by blast
    moreover have ?P6 by (simp add: evs)
    ultimately show ?thesis by (intro conjI)
  next
    case True
    show ?thesis
    proof (cases "cwd (host s) iss_file = None")
      case n: True
      note r = package_windows_no_script [OF t ok True n, of e a]
      have evs: "?evs = archive_events t @
                [Print ''Creating Windows installer...'',
                 Print ''Installer script not found, skipping installer creation'',
                 Print ''Windows packaging completed!'']"
        by (simp add: r new_events_def)
      have res: "fst (package_windows e a s) = Inr True"
        by (simp add: r)
      have none: "Proc cmd shell h out \<notin> set ?evs" for cmd shell h out
        by (simp add: evs)
      from none n have ?P1 by blast
      moreover from none have ?P2 by blast
      moreover from True have ?P3 by blast
      moreover from res have ?P4 by (simp add: evs)
      moreover from n have ?P5 by blast
      moreover have ?P6 by (simp add: evs)
      ultimately show ?thesis by (intro conjI)
    next
      case n: False
      obtain out h' where x: "exec e (iscc_cmd (host s)) False (archived (host s)) = (out, h')"
        by (cases "exec e (iscc_cmd (host s)) False (archived (host s))")
      note r = package_windows_installer [OF t ok True n x, of a]
      have evs: "?evs = archive_events t @
                [Print ''Creating Windows installer...'',
                 Print (''Running: '' @ join '' '' (iscc_cmd (host s))),
                 Proc (iscc_cmd (host s)) False (archived (host s)) out]
                @ (case out of
                     Exited c \<Rightarrow> if c = 0 then [Print ''Windows packaging completed!'']
                                 else [PrintError (iscc_cmd (host s)) c]
                   | LaunchError \<Rightarrow> [])"
        by (simp add: r new_events_def)
      have res: "fst (package_windows e a s) =
                 (case out of
                    Exited c \<Rightarrow> if c = 0 then Inr True else Inl (SystemExit 1)
                  | LaunchError \<Rightarrow> Inl OSError)"
        by (simp add: r)
      have mem: "Proc (iscc_cmd (host s)) False (archived (host s)) out \<in> set ?evs"
        by (simp add: evs)
      have only: "cmd = iscc_cmd (host s) \<and> h = archived (host s)
                  \<and> o' = fst (exec e (iscc_cmd (host s)) False (archived (host s)))"
        if "Proc cmd shell h o' \<in> set ?evs" for cmd shell h o'
        using that x by (auto simp: evs split: outcome.splits if_splits)
      from mem True n have ?P1 by blast
      moreover from only have ?P2 by blast
      moreover from True have ?P3 by blast
      moreover from n have ?P4 by blast
      moreover from res x have ?P5 by simp
      moreover have ?P6 by (simp add: evs)
      ultimately show ?thesis by (intro conjI)
    qed
  qed
qed


lemma proc_codes_append: "proc_codes (xs @ ys) = proc_codes xs @ proc_codes ys"
  by (induction xs rule: proc_codes.induct) simp_all

lemma proc_codes_quiet: "\<forall>ev \<in> set evs. \<not> is_proc ev \<Longrightarrow> proc_codes evs = []"
  by (induction evs rule: proc_codes.induct) simp_all

lemma proc_codes_archive_events [simp]: "proc_codes (archive_events t) = []"
  by (rule proc_codes_quiet) (auto simp: archive_events_def)

lemma portable_world_facts:
  "cwd (host portable_world) portable_dir = Some portable_tree"
  "archive_ok (host portable_world)"
  "truthy (onpath (host portable_world) ''iscc'')"
  "cwd (host portable_world) iss_file \<noteq> None"
  "iscc_cmd (host portable_world) = [''C:/InnoSetup/iscc.exe'', ''amberol-installer.iss'']"
  by (simp_all add: portable_world_def portable_dir_def iss_file_def archive_ok_def
      dist_entries_def dist_dir_def truthy_def iscc_cmd_def path_of_def)

text \<open>
  Both the tool and the installer definition are there, the generator fails with
  status 3, and the packager does not return success: the run is aborted.
\<close>

theorem installer_generation_counterexample:
  "fst (package_windows iscc_fails (sample_args PackageWindows) portable_world)
     = Inl (SystemExit 1)
   \<and> proc_codes (trace (snd (package_windows iscc_fails (sample_args PackageWindows)
                               portable_world)))
       = [([''C:/InnoSetup/iscc.exe'', ''amberol-installer.iss''], 3)]"
proof -
  have x: "exec iscc_fails (iscc_cmd (host portable_world)) False (archived (host portable_world))
             = (Exited 3, archived (host portable_world))"
    by (simp add: iscc_fails_def)
  note r = package_windows_installer [OF portable_world_facts(1,2,3,4) x,
      of "sample_args PackageWindows"]
  have t: "trace portable_world = []"
    by (simp add: portable_world_def)
  show ?thesis
    by (simp add: r t proc_codes_append portable_world_facts(5))
qed

theorem installer_generation_witness:
  "cwd (host portable_world) portable_dir \<noteq> None \<and> archive_ok (host portable_world)
   \<and> truthy (onpath (host portable_world) ''iscc'')
   \<and> cwd (host portable_world) iss_file \<noteq> None
   \<and> (\<exists>cmd shell h out.
         Proc cmd shell h out
           \<in> set (new_events portable_world
                    (snd (package_windows linux_env (sample_args PackageWindows) portable_world))))
   \<and> fst (package_windows linux_env (sample_args PackageWindows) portable_world) = Inr True
   \<and> fst (package_windows iscc_fails (sample_args PackageWindows) portable_world)
       = Inl (SystemExit 1)"
proof -
  have p: "cwd (host portable_world) portable_dir \<noteq> None"
    by (simp add: portable_world_facts(1))
  note f = portable_world_facts(2,3,4)
  note w1 = installer_generation [OF p f(1), of linux_env "sample_args PackageWindows"]
  note w2 = installer_generation [OF p f(1), of iscc_fails "sample_args PackageWindows"]
  from w1 f have inv: "\<exists>cmd shell h out.
         Proc cmd shell h out
           \<in> set (new_events portable_world
                    (snd (package_windows linux_env (sample_args PackageWindows) portable_world)))"
    by blast
  from w1 f have "fst (package_windows linux_env (sample_args PackageWindows) portable_world) =
      (case fst (exec linux_env (iscc_cmd (host portable_world)) False
                   (archived (host portable_world))) of
         Exited c \<Rightarrow> if c = 0 then Inr True else Inl (SystemExit 1)
       | LaunchError \<Rightarrow> Inl OSError)"
    by blast
  then have ok: "fst (package_windows linux_env (sample_args PackageWindows) portable_world)
      = Inr True"
    by (simp add: linux_env_def)
  from w2 f have "fst (package_windows iscc_fails (sample_args PackageWindows) portable_world) =
      (case fst (exec iscc_fails (iscc_cmd (host portable_world)) False
                   (archived (host portable_world))) of
         Exited c \<Rightarrow> if c = 0 then Inr True else Inl (SystemExit 1)
       | LaunchError \<Rightarrow> Inl OSError)"
    by blast
  then have bad: "fst (package_windows iscc_fails (sample_args PackageWindows) portable_world)
      = Inl (SystemExit 1)"
    by (simp add: iscc_fails_def)
  from p f inv ok bad show ?thesis by (intro conjI)
qed

end
